theory Spec2Isabelle
  imports Complex_Main
begin

section \<open>Values read from a NetCDF file\<close>

text \<open>
  A Python float: a finite value, or one of the three non-finite ones. \<open>NaN\<close> is
  what xarray puts where the file holds a fill value, and what \<open>where\<close> puts where its
  condition is false.
\<close>

datatype pyfloat = Finite real | NaN | PosInf | NegInf

text \<open>The exceptions the converter can meet, by the call that raises them.\<close>

datatype pyerr =
    OpenError        \<comment> \<open>\<open>xr.open_dataset\<close> or \<open>len(ds.N_PROF)\<close> raises\<close>
  | KeyError         \<comment> \<open>a variable is not in the dataset\<close>
  | ValueError       \<comment> \<open>\<open>int\<close> of a blank or NaN field, \<open>timedelta\<close> of NaN, arrays of unequal length\<close>
  | OverflowError    \<comment> \<open>\<open>timedelta\<close> or \<open>datetime\<close> out of range\<close>
  | DatabaseError    \<comment> \<open>a psycopg2 call raises\<close>

text \<open>
  A QC flag as xarray gives it: a byte string such as \<open>b'1'\<close>, or nothing where the
  file has none.
\<close>

datatype qc_flag = Bytes string | MissingFlag

section \<open>Time: \<open>ref_date + timedelta(days=float(julian_day))\<close>\<close>

text \<open>
  \<open>datetime\<close> as Python has it, a calendar date and a time of day. The functions
  below follow \<open>datetime.py\<close>: \<open>_days_before_year\<close>, \<open>_is_leap\<close>,
  \<open>_days_in_month\<close>, \<open>_days_before_month\<close>, \<open>_ymd2ord\<close>, \<open>_ord2ymd\<close>.
\<close>

record datetime =
  year :: int
  month :: int
  day :: int
  hour :: int
  minute :: int
  second :: int
  microsecond :: int

definition is_leap :: "int \<Rightarrow> bool" where
  "is_leap y = (y mod 4 = 0 \<and> (y mod 100 \<noteq> 0 \<or> y mod 400 = 0))"

definition days_before_year :: "int \<Rightarrow> int" where
  "days_before_year y = (let y1 = y - 1 in y1 * 365 + y1 div 4 - y1 div 100 + y1 div 400)"

definition days_in_month_tab :: "int list" where
  "days_in_month_tab = [31, 28, 31, 30, 31, 30, 31, 31, 30, 31, 30, 31]"

definition days_in_month :: "int \<Rightarrow> int \<Rightarrow> int" where
  "days_in_month y m =
     (if m = 2 \<and> is_leap y then 29 else days_in_month_tab ! nat (m - 1))"

definition days_before_month_tab :: "int list" where
  "days_before_month_tab = [0, 31, 59, 90, 120, 151, 181, 212, 243, 273, 304, 334]"

definition days_before_month :: "int \<Rightarrow> int \<Rightarrow> int" where
  "days_before_month y m =
     days_before_month_tab ! nat (m - 1) + (if m > 2 \<and> is_leap y then 1 else 0)"

definition ymd2ord :: "int \<Rightarrow> int \<Rightarrow> int \<Rightarrow> int" where
  "ymd2ord y m d = days_before_year y + days_before_month y m + d"

definition ord2ymd :: "int \<Rightarrow> int \<times> int \<times> int" where
  "ord2ymd n0 =
     (let n = n0 - 1;
          n400 = n div 146097; n = n mod 146097;
          y = n400 * 400 + 1;
          n100 = n div 36524; n = n mod 36524;
          n4 = n div 1461; n = n mod 1461;
          n1 = n div 365; n = n mod 365;
          y = y + n100 * 100 + n4 * 4 + n1
      in if n1 = 4 \<or> n100 = 4 then (y - 1, 12, 31)
         else
           let leapyear = (n1 = 3 \<and> (n4 \<noteq> 24 \<or> n100 = 3));
               m = (n + 50) div 32;
               preceding = days_before_month_tab ! nat (m - 1)
                             + (if m > 2 \<and> leapyear then 1 else 0)
           in if preceding > n
              then let m' = m - 1;
                       preceding' = preceding
                          - (days_in_month_tab ! nat (m' - 1)
                             + (if m' = 2 \<and> leapyear then 1 else 0))
                   in (y, m', n - preceding' + 1)
              else (y, m, n - preceding + 1))"

definition us_per_day :: int where
  "us_per_day = 86400000000"

definition MAXORDINAL :: int where
  "MAXORDINAL = 3652059"

definition MAX_DELTA_DAYS :: int where
  "MAX_DELTA_DAYS = 999999999"

text \<open>Python's \<open>round\<close> on a float: to the nearest integer, a tie to the even one.\<close>

definition round_half_even :: "real \<Rightarrow> int" where
  "round_half_even x =
     (let f = \<lfloor>x\<rfloor>; r = x - of_int f
      in if r < 1 / 2 then f
         else if r > 1 / 2 then f + 1
         else if even f then f else f + 1)"

text \<open>\<open>math.modf\<close>: the integral part, truncated towards zero.\<close>

definition trunc :: "real \<Rightarrow> int" where
  "trunc x = (if x \<ge> 0 then \<lfloor>x\<rfloor> else \<lceil>x\<rceil>)"

text \<open>
  \<open>timedelta(days=x)\<close>, as a count of microseconds. The whole days are converted
  exactly, the fraction of a day is multiplied by the microseconds of a day and rounded
  half to even; the product is taken as the exact one (it is exact in double precision
  whenever the fraction is a whole number of microseconds). A NaN raises \<open>ValueError\<close>,
  an infinity and a magnitude beyond 999999999 days raise \<open>OverflowError\<close>.
\<close>

definition timedelta_days :: "pyfloat \<Rightarrow> pyerr + int" where
  "timedelta_days x =
     (case x of
        NaN \<Rightarrow> Inl ValueError
      | PosInf \<Rightarrow> Inl OverflowError
      | NegInf \<Rightarrow> Inl OverflowError
      | Finite d \<Rightarrow>
          let intpart = trunc d;
              fracpart = d - of_int intpart;
              us = intpart * us_per_day + round_half_even (fracpart * of_int us_per_day)
          in if \<bar>us div us_per_day\<bar> > MAX_DELTA_DAYS then Inl OverflowError
             else Inr us)"

text \<open>The microseconds from 0001-01-01T00:00:00 minus one day (ordinal 1 is 0001-01-01).\<close>

definition datetime_us :: "datetime \<Rightarrow> int" where
  "datetime_us t =
     ymd2ord (year t) (month t) (day t) * us_per_day
       + ((hour t * 60 + minute t) * 60 + second t) * 1000000 + microsecond t"

definition datetime_of_us :: "int \<Rightarrow> datetime" where
  "datetime_of_us us =
     (let ord = us div us_per_day; r = us mod us_per_day;
          s = r div 1000000;
          (y, m, d) = ord2ymd ord
      in \<lparr>year = y, month = m, day = d,
          hour = s div 3600, minute = (s mod 3600) div 60, second = s mod 60,
          microsecond = r mod 1000000\<rparr>)"

text \<open>\<open>datetime.__add__\<close>: the result must be a day of the years 1 to 9999.\<close>

definition datetime_add :: "datetime \<Rightarrow> int \<Rightarrow> pyerr + datetime" where
  "datetime_add t delta =
     (let us = datetime_us t + delta; ord = us div us_per_day
      in if 0 < ord \<and> ord \<le> MAXORDINAL then Inr (datetime_of_us us)
         else Inl OverflowError)"

definition ref_date :: datetime where
  "ref_date = \<lparr>year = 1950, month = 1, day = 1,
               hour = 0, minute = 0, second = 0, microsecond = 0\<rparr>"

text \<open>Lines 62 and 75 of \<open>process_file\<close>.\<close>

definition profile_date_of :: "pyfloat \<Rightarrow> pyerr + datetime" where
  "profile_date_of julian_day =
     (case timedelta_days julian_day of
        Inl e \<Rightarrow> Inl e
      | Inr delta \<Rightarrow> datetime_add ref_date delta)"

section \<open>The dataset and the store\<close>

text \<open>
  One profile of an opened dataset (index \<open>i\<close> of the dimension \<open>N_PROF\<close>). A
  scalar field holds what the source's expression for it evaluates to, for instance
  \<open>int(ds['PLATFORM_NUMBER'].isel(N_PROF=i).values)\<close>: the value, or the exception
  raised (a variable that is absent, a blank or NaN field given to \<open>int\<close>). An array
  field holds the per-depth values of the profile, NaN where the file has a fill value.
\<close>

record nc_profile =
  PLATFORM_NUMBER :: "pyerr + int"
  CYCLE_NUMBER :: "pyerr + int"
  JULD :: "pyerr + pyfloat"
  LATITUDE :: "pyerr + pyfloat"
  LONGITUDE :: "pyerr + pyfloat"
  TEMP :: "pyerr + pyfloat list"
  TEMP_QC :: "pyerr + qc_flag list"
  PSAL :: "pyerr + pyfloat list"
  PSAL_QC :: "pyerr + qc_flag list"
  PRES :: "pyerr + pyfloat list"
  PRES_QC :: "pyerr + qc_flag list"

text \<open>A file: its path and what opening it gives, the profiles or the exception.\<close>

record nc_file =
  file_path :: string
  dataset :: "pyerr + nc_profile list"

record profile_row =
  profile_id :: int
  platform_number :: int
  cycle_number :: int
  profile_timestamp :: datetime
  latitude :: pyfloat
  longitude :: pyfloat

text \<open>A measurement tuple; \<open>None\<close> is Python's \<open>None\<close>, the NULL of the database.\<close>

record measurement_row =
  m_profile_id :: int
  pressure_dbar :: "pyfloat option"
  temperature_celsius :: "pyfloat option"
  salinity_psu :: "pyfloat option"

datatype log_entry =
    ErrorFile string pyerr             \<comment> \<open>line 91\<close>
  | ErrorProfileInsert int int pyerr   \<comment> \<open>line 115\<close>
  | WarnExtract int pyerr              \<comment> \<open>line 141\<close>
  | ErrorBulkInsert pyerr              \<comment> \<open>line 153\<close>

text \<open>
  The state the converter works on: the two tables as committed, the rows written in
  the open transaction of the connection and not yet committed, the generator of
  \<open>profile_id\<close>, the log, and \<open>faults\<close>, which says for each coming call to the
  database whether it raises (\<open>True\<close>); when the list is used up, no call raises.
  \<open>logging.debug\<close> (line 70) prints nothing at the configured level INFO and is left
  out of the log.
\<close>

record world =
  argo_profiles :: "profile_row list"
  ocean_measurements :: "measurement_row list"
  txn_profiles :: "profile_row list"
  txn_measurements :: "measurement_row list"
  profile_id_seq :: int
  faults :: "bool list"
  log :: "log_entry list"

definition profile_key :: "profile_row \<Rightarrow> int \<times> int" where
  "profile_key r = (platform_number r, cycle_number r)"

definition db_call :: "world \<Rightarrow> bool \<times> world" where
  "db_call w = (case faults w of [] \<Rightarrow> (False, w) | f # fs \<Rightarrow> (f, w\<lparr>faults := fs\<rparr>))"

definition logging :: "log_entry \<Rightarrow> world \<Rightarrow> world" where
  "logging e w = w\<lparr>log := log w @ [e]\<rparr>"

definition commit :: "world \<Rightarrow> (pyerr + unit) \<times> world" where
  "commit w =
     (case db_call w of
        (True, w1) \<Rightarrow> (Inl DatabaseError, w1)
      | (False, w1) \<Rightarrow>
          (Inr (), w1\<lparr>argo_profiles := argo_profiles w1 @ txn_profiles w1,
                      ocean_measurements := ocean_measurements w1 @ txn_measurements w1,
                      txn_profiles := [], txn_measurements := []\<rparr>))"

text \<open>
  \<open>rollback\<close> raises only on a connection that is lost, and then the server drops the
  open transaction: the uncommitted rows are gone either way.
\<close>

definition rollback :: "world \<Rightarrow> (pyerr + unit) \<times> world" where
  "rollback w =
     (case db_call w of
        (failed, w1) \<Rightarrow>
          (if failed then Inl DatabaseError else Inr (),
           w1\<lparr>txn_profiles := [], txn_measurements := []\<rparr>))"

section \<open>\<open>ArgoDataConverter\<close>\<close>

text \<open>Lines 93 to 100. The SELECT sees the committed rows and those of its own transaction.\<close>

definition profile_exists :: "world \<Rightarrow> int \<Rightarrow> int \<Rightarrow> (pyerr + bool) \<times> world" where
  "profile_exists w platform cycle =
     (case db_call w of
        (True, w1) \<Rightarrow> (Inl DatabaseError, w1)
      | (False, w1) \<Rightarrow>
          (Inr ((platform, cycle) \<in> set (map profile_key (argo_profiles w1 @ txn_profiles w1))),
           w1))"

text \<open>
  Modelled from the spec: \<open>db_setup.sql\<close>, which declares \<open>profile_id\<close>, is not among
  the sources; the spec calls it a generated primary key. The INSERT takes the next value
  of a sequence, which a rollback does not give back.
\<close>

definition execute_insert_profile ::
  "world \<Rightarrow> int \<Rightarrow> int \<Rightarrow> datetime \<Rightarrow> pyfloat \<Rightarrow> pyfloat \<Rightarrow> (pyerr + int) \<times> world" where
  "execute_insert_profile w platform cycle date lat lon =
     (case db_call w of
        (True, w1) \<Rightarrow> (Inl DatabaseError, w1)
      | (False, w1) \<Rightarrow>
          (Inr (profile_id_seq w1),
           w1\<lparr>txn_profiles := txn_profiles w1 @
                  [\<lparr>profile_id = profile_id_seq w1, platform_number = platform,
                    cycle_number = cycle, profile_timestamp = date,
                    latitude = lat, longitude = lon\<rparr>],
              profile_id_seq := profile_id_seq w1 + 1\<rparr>))"

text \<open>The \<open>except\<close> branch of lines 114 to 117; the rollback may raise in its turn.\<close>

definition insert_profile_failed ::
  "world \<Rightarrow> int \<Rightarrow> int \<Rightarrow> pyerr \<Rightarrow> (pyerr + int option) \<times> world" where
  "insert_profile_failed w platform cycle e =
     (case rollback (logging (ErrorProfileInsert platform cycle e) w) of
        (Inl e', w1) \<Rightarrow> (Inl e', w1)
      | (Inr u, w1) \<Rightarrow> (Inr None, w1))"

text \<open>Lines 102 to 117.\<close>

definition insert_profile_metadata ::
  "world \<Rightarrow> int \<Rightarrow> int \<Rightarrow> datetime \<Rightarrow> pyfloat \<Rightarrow> pyfloat \<Rightarrow> (pyerr + int option) \<times> world" where
  "insert_profile_metadata w platform cycle date lat lon =
     (case execute_insert_profile w platform cycle date lat lon of
        (Inl e, w1) \<Rightarrow> insert_profile_failed w1 platform cycle e
      | (Inr pid, w1) \<Rightarrow>
          (case commit w1 of
             (Inl e, w2) \<Rightarrow> insert_profile_failed w2 platform cycle e
           | (Inr u, w2) \<Rightarrow> (Inr (Some pid), w2)))"

text \<open>\<open>isin([b'1', b'2'])\<close>.\<close>

definition isin_good :: "qc_flag \<Rightarrow> bool" where
  "isin_good q = (q \<in> set [Bytes ''1'', Bytes ''2''])"

text \<open>
  \<open>values.where(flags.isin([b'1', b'2'])).values\<close>: NaN where the condition is false.
  The two arrays of a dataset have the same dimension; xarray raises on sizes that
  differ.
\<close>

definition where_isin :: "pyfloat list \<Rightarrow> qc_flag list \<Rightarrow> pyerr + pyfloat list" where
  "where_isin vals flags =
     (if length vals \<noteq> length flags then Inl ValueError
      else Inr (map (\<lambda>(v, q). if isin_good q then v else NaN) (zip vals flags)))"

text \<open>Line 139: \<open>df.where(pd.notna(df), None)\<close>.\<close>

definition nan_to_None :: "pyfloat \<Rightarrow> pyfloat option" where
  "nan_to_None x = (if x = NaN then None else Some x)"

text \<open>
  Lines 128 to 139: the data frame of the three columns (pandas raises on columns of
  unequal length), \<open>dropna\<close> on the pressure, the tuples.
\<close>

definition measurement_tuples ::
  "int \<Rightarrow> pyfloat list \<Rightarrow> pyfloat list \<Rightarrow> pyfloat list \<Rightarrow> pyerr + measurement_row list" where
  "measurement_tuples pid pres temp psal =
     (if length pres \<noteq> length temp \<or> length temp \<noteq> length psal then Inl ValueError
      else Inr (map (\<lambda>(p, t, s). \<lparr>m_profile_id = pid, pressure_dbar = nan_to_None p,
                                  temperature_celsius = nan_to_None t,
                                  salinity_psu = nan_to_None s\<rparr>)
                  (filter (\<lambda>(p, t, s). p \<noteq> NaN) (zip pres (zip temp psal)))))"

text \<open>\<open>x.where(q.isin(...))\<close> with the reads of the two variables, in the source's order.\<close>

definition filtered :: "pyerr + pyfloat list \<Rightarrow> pyerr + qc_flag list \<Rightarrow> pyerr + pyfloat list" where
  "filtered var var_qc =
     (case var of
        Inl e \<Rightarrow> Inl e
      | Inr vals \<Rightarrow> (case var_qc of Inl e \<Rightarrow> Inl e | Inr flags \<Rightarrow> where_isin vals flags))"

text \<open>The \<open>try\<close> body of lines 122 to 139.\<close>

definition extract_rows :: "nc_profile \<Rightarrow> int \<Rightarrow> pyerr + measurement_row list" where
  "extract_rows prof pid =
     (case filtered (TEMP prof) (TEMP_QC prof) of
        Inl e \<Rightarrow> Inl e
      | Inr temp \<Rightarrow>
     (case filtered (PSAL prof) (PSAL_QC prof) of
        Inl e \<Rightarrow> Inl e
      | Inr psal \<Rightarrow>
     (case filtered (PRES prof) (PRES_QC prof) of
        Inl e \<Rightarrow> Inl e
      | Inr pres \<Rightarrow> measurement_tuples pid pres temp psal)))"

text \<open>Lines 119 to 142.\<close>

definition extract_measurements :: "world \<Rightarrow> nc_profile \<Rightarrow> int \<Rightarrow> measurement_row list \<times> world" where
  "extract_measurements w prof pid =
     (case extract_rows prof pid of
        Inl e \<Rightarrow> ([], logging (WarnExtract pid e) w)
      | Inr rows \<Rightarrow> (rows, w))"

text \<open>
  \<open>psycopg2.extras.execute_values\<close> with its default \<open>page_size=100\<close>: one INSERT
  statement for each page of at most 100 rows, all in the open transaction.
\<close>

function paginate :: "'a list \<Rightarrow> 'a list list" where
  "paginate xs = (if xs = [] then [] else take 100 xs # paginate (drop 100 xs))"
  by pat_completeness auto
termination
  by (relation "measure length") auto

fun execute_pages :: "world \<Rightarrow> measurement_row list list \<Rightarrow> (pyerr + unit) \<times> world" where
  "execute_pages w [] = (Inr (), w)"
| "execute_pages w (page # pages) =
     (case db_call w of
        (True, w1) \<Rightarrow> (Inl DatabaseError, w1)
      | (False, w1) \<Rightarrow>
          execute_pages (w1\<lparr>txn_measurements := txn_measurements w1 @ page\<rparr>) pages)"

definition execute_values :: "world \<Rightarrow> measurement_row list \<Rightarrow> (pyerr + unit) \<times> world" where
  "execute_values w measurements = execute_pages w (paginate measurements)"

text \<open>The \<open>except\<close> branch of lines 152 to 154.\<close>

definition bulk_insert_failed :: "world \<Rightarrow> pyerr \<Rightarrow> (pyerr + unit) \<times> world" where
  "bulk_insert_failed w e = rollback (logging (ErrorBulkInsert e) w)"

text \<open>Lines 144 to 154.\<close>

definition bulk_insert_measurements ::
  "world \<Rightarrow> measurement_row list \<Rightarrow> (pyerr + unit) \<times> world" where
  "bulk_insert_measurements w measurements =
     (case execute_values w measurements of
        (Inl e, w1) \<Rightarrow> bulk_insert_failed w1 e
      | (Inr u, w1) \<Rightarrow>
          (case commit w1 of
             (Inl e, w2) \<Rightarrow> bulk_insert_failed w2 e
           | (Inr u', w2) \<Rightarrow> (Inr (), w2)))"

text \<open>\<open>not profile_id\<close>: \<open>None\<close> and \<open>0\<close> are falsy.\<close>

definition falsy :: "int option \<Rightarrow> bool" where
  "falsy pid = (case pid of None \<Rightarrow> True | Some n \<Rightarrow> n = 0)"

text \<open>Lines 85 to 88, once \<open>profile_id\<close> is truthy.\<close>

definition ingest_measurements :: "world \<Rightarrow> nc_profile \<Rightarrow> int \<Rightarrow> (pyerr + unit) \<times> world" where
  "ingest_measurements w prof pid =
     (case extract_measurements w prof pid of
        (measurements, w1) \<Rightarrow>
          if measurements = [] then (Inr (), w1)
          else bulk_insert_measurements w1 measurements)"

text \<open>Lines 73 to 88: the profile is new.\<close>

definition ingest_profile :: "world \<Rightarrow> nc_profile \<Rightarrow> int \<Rightarrow> int \<Rightarrow> (pyerr + unit) \<times> world" where
  "ingest_profile w prof platform cycle =
     (case JULD prof of
        Inl e \<Rightarrow> (Inl e, w)
      | Inr julian_day \<Rightarrow>
     (case profile_date_of julian_day of
        Inl e \<Rightarrow> (Inl e, w)
      | Inr profile_date \<Rightarrow>
     (case LATITUDE prof of
        Inl e \<Rightarrow> (Inl e, w)
      | Inr lat \<Rightarrow>
     (case LONGITUDE prof of
        Inl e \<Rightarrow> (Inl e, w)
      | Inr lon \<Rightarrow>
     (case insert_profile_metadata w platform cycle profile_date lat lon of
        (Inl e, w1) \<Rightarrow> (Inl e, w1)
      | (Inr pid, w1) \<Rightarrow>
          if falsy pid then (Inr (), w1)
          else ingest_measurements w1 prof (the pid))))))"

text \<open>
  The body of the loop of line 65 for one profile: \<open>Inr ()\<close> when the loop goes on
  (by \<open>continue\<close> or at the end of the body), \<open>Inl e\<close> when \<open>e\<close> leaves the loop.
\<close>

definition process_profile :: "world \<Rightarrow> nc_profile \<Rightarrow> (pyerr + unit) \<times> world" where
  "process_profile w prof =
     (case PLATFORM_NUMBER prof of
        Inl e \<Rightarrow> (Inl e, w)
      | Inr platform \<Rightarrow>
     (case CYCLE_NUMBER prof of
        Inl e \<Rightarrow> (Inl e, w)
      | Inr cycle \<Rightarrow>
     (case profile_exists w platform cycle of
        (Inl e, w1) \<Rightarrow> (Inl e, w1)
      | (Inr found, w1) \<Rightarrow>
          if found then (Inr (), w1)
          else ingest_profile w1 prof platform cycle)))"

fun process_profiles :: "world \<Rightarrow> nc_profile list \<Rightarrow> (pyerr + unit) \<times> world" where
  "process_profiles w [] = (Inr (), w)"
| "process_profiles w (prof # profs) =
     (case process_profile w prof of
        (Inl e, w1) \<Rightarrow> (Inl e, w1)
      | (Inr u, w1) \<Rightarrow> process_profiles w1 profs)"

text \<open>Lines 58 to 91.\<close>

definition process_file :: "world \<Rightarrow> nc_file \<Rightarrow> world" where
  "process_file w f =
     (case dataset f of
        Inl e \<Rightarrow> logging (ErrorFile (file_path f) e) w
      | Inr profs \<Rightarrow>
          (case process_profiles w profs of
             (Inl e, w1) \<Rightarrow> logging (ErrorFile (file_path f) e) w1
           | (Inr u, w1) \<Rightarrow> w1))"

text \<open>The loop of lines 187 and 188.\<close>

fun convert_all :: "world \<Rightarrow> nc_file list \<Rightarrow> world" where
  "convert_all w [] = w"
| "convert_all w (f # fs) = convert_all (process_file w f) fs"

section \<open>Predicates on runs\<close>

text \<open>The pair of the profile reads without an exception and is in the store.\<close>

definition profile_known :: "world \<Rightarrow> nc_profile \<Rightarrow> bool" where
  "profile_known w prof =
     (case PLATFORM_NUMBER prof of
        Inl e \<Rightarrow> False
      | Inr platform \<Rightarrow>
     (case CYCLE_NUMBER prof of
        Inl e \<Rightarrow> False
      | Inr cycle \<Rightarrow>
          (platform, cycle) \<in> set (map profile_key (argo_profiles w @ txn_profiles w))))"



section \<open>Example data\<close>

text \<open>A store with both tables empty, on a connection where no call fails.\<close>

definition empty_store :: world where
  "empty_store = \<lparr>argo_profiles = [], ocean_measurements = [], txn_profiles = [],
     txn_measurements = [], profile_id_seq = 1, faults = [], log = []\<rparr>"

text \<open>
  A profile of three depth samples: the temperature of the second is flagged bad, its
  salinity has no flag, and the pressure of the third is flagged \<open>9\<close>.
\<close>

definition example_profile :: nc_profile where
  "example_profile = \<lparr>PLATFORM_NUMBER = Inr 1901393, CYCLE_NUMBER = Inr 1,
     JULD = Inr (Finite (3 / 2)), LATITUDE = Inr (Finite 10), LONGITUDE = Inr (Finite (-20)),
     TEMP = Inr [Finite 20, Finite 18, Finite 15],
     TEMP_QC = Inr [Bytes ''1'', Bytes ''4'', Bytes ''1''],
     PSAL = Inr [Finite 35, Finite 35, NaN],
     PSAL_QC = Inr [Bytes ''2'', MissingFlag, Bytes ''1''],
     PRES = Inr [Finite 5, Finite 10, Finite 15],
     PRES_QC = Inr [Bytes ''1'', Bytes ''1'', Bytes ''9'']\<rparr>"

definition example_file :: nc_file where
  "example_file = \<lparr>file_path = ''a.nc'', dataset = Inr [example_profile]\<rparr>"

definition example_row :: measurement_row where
  "example_row = \<lparr>m_profile_id = 1, pressure_dbar = Some (Finite 5),
     temperature_celsius = Some (Finite 20), salinity_psu = Some (Finite 35)\<rparr>"

text \<open>
  A batch of 101 rows, which \<open>execute_values\<close> sends as two statements, and a connection
  where the second call raises and the calls after it succeed.
\<close>

definition example_batch :: "measurement_row list" where
  "example_batch = replicate 101 example_row"

definition failing_store :: world where
  "failing_store = empty_store\<lparr>faults := [False, True]\<rparr>"

text \<open>A file that does not open.\<close>

definition unreadable_file :: nc_file where
  "unreadable_file = \<lparr>file_path = ''bad.nc'', dataset = Inl OpenError\<rparr>"


definition undated_profile :: nc_profile where
  "undated_profile = example_profile\<lparr>CYCLE_NUMBER := Inr 2, JULD := Inr NaN\<rparr>"

definition third_profile :: nc_profile where
  "third_profile = example_profile\<lparr>CYCLE_NUMBER := Inr 3\<rparr>"

definition three_profile_file :: nc_file where
  "three_profile_file =
     \<lparr>file_path = ''c.nc'', dataset = Inr [example_profile, undated_profile, third_profile]\<rparr>"

text \<open>A store whose generator of \<open>profile_id\<close> gives 0 next.\<close>

definition zero_seq_store :: world where
  "zero_seq_store = empty_store\<lparr>profile_id_seq := 0\<rparr>"

text \<open>The example profile with every field but the key unreadable.\<close>

definition key_only_profile :: nc_profile where
  "key_only_profile = example_profile\<lparr>JULD := Inl KeyError, LATITUDE := Inl KeyError,
     LONGITUDE := Inl KeyError, TEMP := Inl KeyError, TEMP_QC := Inl KeyError,
     PSAL := Inl KeyError, PSAL_QC := Inl KeyError, PRES := Inl KeyError,
     PRES_QC := Inl KeyError\<rparr>"



section \<open>Properties\<close>




lemma measurement_tuples_pressure:
  "measurement_tuples pid pres temp psal = Inr rows \<Longrightarrow> r \<in> set rows \<Longrightarrow>
   \<exists>v. pressure_dbar r = Some v \<and> v \<noteq> NaN"
  by (auto simp: measurement_tuples_def nan_to_None_def split: if_splits)

lemma length_filter_zip_fst:
  "length xs = length ys \<Longrightarrow>
   length (filter (\<lambda>(p, q). P p) (zip xs ys)) = length (filter P xs)"
  by (induction xs ys rule: list_induct2) auto

lemma measurement_tuples_length:
  assumes "measurement_tuples pid pres temp psal = Inr rows"
  shows "length rows = length (filter (\<lambda>p. p \<noteq> NaN) pres)"
proof -
  from assms have len: "length pres = length (zip temp psal)"
    by (auto simp: measurement_tuples_def split: if_splits)
  from assms have "length rows =
      length (filter (\<lambda>(p, q). p \<noteq> NaN) (zip pres (zip temp psal)))"
    by (auto simp: measurement_tuples_def case_prod_unfold split: if_splits)
  with length_filter_zip_fst[OF len, of "\<lambda>p. p \<noteq> NaN"] show ?thesis by simp
qed

lemma extract_rows_pressure:
  "extract_rows prof pid = Inr rows \<Longrightarrow> r \<in> set rows \<Longrightarrow> \<exists>v. pressure_dbar r = Some v \<and> v \<noteq> NaN"
  by (auto simp: extract_rows_def split: sum.splits dest: measurement_tuples_pressure)

lemma extract_measurements_pressure:
  "extract_measurements w prof pid = (rows, w1) \<Longrightarrow> r \<in> set rows \<Longrightarrow>
   \<exists>v. pressure_dbar r = Some v \<and> v \<noteq> NaN"
  by (auto simp: extract_measurements_def split: sum.splits dest: extract_rows_pressure)
subsection \<open>What a call to the database leaves as it was\<close>

lemma db_call_eq:
  "db_call w = (faults w \<noteq> [] \<and> hd (faults w), w\<lparr>faults := tl (faults w)\<rparr>)"
  by (cases w) (simp add: db_call_def split: list.splits)

lemma logging_same [simp]:
  "argo_profiles (logging e w) = argo_profiles w"
  "ocean_measurements (logging e w) = ocean_measurements w"
  "txn_profiles (logging e w) = txn_profiles w"
  "txn_measurements (logging e w) = txn_measurements w"
  "profile_id_seq (logging e w) = profile_id_seq w"
  "faults (logging e w) = faults w"
  "log (logging e w) = log w @ [e]"
  by (simp_all add: logging_def)

lemma commit_effect:
  assumes "commit w = (r, w1)"
  shows "(r = Inr () \<and> argo_profiles w1 = argo_profiles w @ txn_profiles w
            \<and> ocean_measurements w1 = ocean_measurements w @ txn_measurements w
            \<and> txn_profiles w1 = [] \<and> txn_measurements w1 = [])
       \<or> (r = Inl DatabaseError \<and> argo_profiles w1 = argo_profiles w
            \<and> ocean_measurements w1 = ocean_measurements w
            \<and> txn_profiles w1 = txn_profiles w \<and> txn_measurements w1 = txn_measurements w)"
    and "profile_id_seq w1 = profile_id_seq w" and "log w1 = log w"
    and "faults w1 = tl (faults w)"
    and "r = Inr () \<longleftrightarrow> \<not> (faults w \<noteq> [] \<and> hd (faults w))"
  using assms
  by (auto simp: commit_def db_call_eq split: if_splits bool.splits)

lemma rollback_effect:
  assumes "rollback w = (r, w1)"
  shows "argo_profiles w1 = argo_profiles w" "ocean_measurements w1 = ocean_measurements w"
    "txn_profiles w1 = []" "txn_measurements w1 = []"
    "profile_id_seq w1 = profile_id_seq w" "log w1 = log w"
    "faults w1 = tl (faults w)"
    "r = Inr () \<longleftrightarrow> \<not> (faults w \<noteq> [] \<and> hd (faults w))"
    "r = Inr () \<or> r = Inl DatabaseError"
  using assms
  by (auto simp: rollback_def db_call_eq split: if_splits)

lemma profile_exists_effect:
  assumes "profile_exists w a c = (r, w1)"
  shows "argo_profiles w1 = argo_profiles w" "ocean_measurements w1 = ocean_measurements w"
    "txn_profiles w1 = txn_profiles w" "txn_measurements w1 = txn_measurements w"
    "profile_id_seq w1 = profile_id_seq w" "log w1 = log w"
    "faults w1 = tl (faults w)"
    "r = Inl DatabaseError \<or>
     r = Inr ((a, c) \<in> set (map profile_key (argo_profiles w @ txn_profiles w)))"
    "r \<noteq> Inl DatabaseError \<longleftrightarrow> \<not> (faults w \<noteq> [] \<and> hd (faults w))"
  using assms
  by (auto simp: profile_exists_def db_call_eq split: if_splits bool.splits)


lemma execute_insert_profile_effect:
  assumes "execute_insert_profile w a c d la lo = (r, w1)"
  shows "argo_profiles w1 = argo_profiles w" "ocean_measurements w1 = ocean_measurements w"
    "txn_measurements w1 = txn_measurements w" "log w1 = log w"
    "faults w1 = tl (faults w)"
    "(r = Inl DatabaseError \<and> txn_profiles w1 = txn_profiles w
        \<and> profile_id_seq w1 = profile_id_seq w)
     \<or> (r = Inr (profile_id_seq w) \<and> profile_id_seq w1 = profile_id_seq w + 1 \<and>
         txn_profiles w1 = txn_profiles w @
           [\<lparr>profile_id = profile_id_seq w, platform_number = a, cycle_number = c,
             profile_timestamp = d, latitude = la, longitude = lo\<rparr>])"
    "r \<noteq> Inl DatabaseError \<longleftrightarrow> \<not> (faults w \<noteq> [] \<and> hd (faults w))"
  using assms
  by (auto simp: execute_insert_profile_def db_call_eq split: if_splits bool.splits)

lemma insert_profile_failed_effect:
  assumes "insert_profile_failed w a c e = (r, w1)"
  shows "argo_profiles w1 = argo_profiles w" "ocean_measurements w1 = ocean_measurements w"
    "txn_profiles w1 = []" "txn_measurements w1 = []"
    "profile_id_seq w1 = profile_id_seq w"
    "log w1 = log w @ [ErrorProfileInsert a c e]"
    "faults w1 = tl (faults w)"
    "r = Inr None \<or> r = Inl DatabaseError"
    "r = Inr None \<longleftrightarrow> \<not> (faults w \<noteq> [] \<and> hd (faults w))"
proof -
  obtain r' w' where rb: "rollback (logging (ErrorProfileInsert a c e) w) = (r', w')"
    by (cases "rollback (logging (ErrorProfileInsert a c e) w)")
  from assms rb have "w1 = w'" and r: "r = (case r' of Inl e' \<Rightarrow> Inl e' | Inr u \<Rightarrow> Inr None)"
    by (auto simp: insert_profile_failed_def split: sum.splits)
  note eff = rollback_effect[OF rb]
  show "argo_profiles w1 = argo_profiles w" "ocean_measurements w1 = ocean_measurements w"
    "txn_profiles w1 = []" "txn_measurements w1 = []"
    "profile_id_seq w1 = profile_id_seq w"
    "log w1 = log w @ [ErrorProfileInsert a c e]"
    "faults w1 = tl (faults w)"
    using eff \<open>w1 = w'\<close> by simp_all
  show "r = Inr None \<or> r = Inl DatabaseError"
    using eff(9) r by auto
  show "r = Inr None \<longleftrightarrow> \<not> (faults w \<noteq> [] \<and> hd (faults w))"
    using eff(8,9) r by auto
qed

text \<open>The two outcomes of the metadata insert: the row committed, or nothing written.\<close>

lemma insert_profile_metadata_effect:
  assumes "insert_profile_metadata w a c d la lo = (r, w1)"
  shows "(r = Inr (Some (profile_id_seq w)) \<and>
          argo_profiles w1 = argo_profiles w @ txn_profiles w @
             [\<lparr>profile_id = profile_id_seq w, platform_number = a, cycle_number = c,
               profile_timestamp = d, latitude = la, longitude = lo\<rparr>] \<and>
          ocean_measurements w1 = ocean_measurements w @ txn_measurements w \<and>
          log w1 = log w \<and> faults w1 = tl (tl (faults w)))
       \<or> ((r = Inr None \<or> r = Inl DatabaseError) \<and>
          argo_profiles w1 = argo_profiles w \<and>
          ocean_measurements w1 = ocean_measurements w \<and>
          log w1 = log w @ [ErrorProfileInsert a c DatabaseError])"
    and "txn_profiles w1 = []" and "txn_measurements w1 = []"
proof -
  obtain r0 w0 where ex: "execute_insert_profile w a c d la lo = (r0, w0)"
    by (cases "execute_insert_profile w a c d la lo")
  note e0 = execute_insert_profile_effect[OF ex]
  have "((r = Inr (Some (profile_id_seq w)) \<and>
          argo_profiles w1 = argo_profiles w @ txn_profiles w @
             [\<lparr>profile_id = profile_id_seq w, platform_number = a, cycle_number = c,
               profile_timestamp = d, latitude = la, longitude = lo\<rparr>] \<and>
          ocean_measurements w1 = ocean_measurements w @ txn_measurements w \<and>
          log w1 = log w \<and> faults w1 = tl (tl (faults w)))
       \<or> ((r = Inr None \<or> r = Inl DatabaseError) \<and>
          argo_profiles w1 = argo_profiles w \<and>
          ocean_measurements w1 = ocean_measurements w \<and>
          log w1 = log w @ [ErrorProfileInsert a c DatabaseError]))
       \<and> txn_profiles w1 = [] \<and> txn_measurements w1 = []"
  proof (cases r0)
    case (Inl e)
    with ex assms have f: "insert_profile_failed w0 a c e = (r, w1)"
      by (simp add: insert_profile_metadata_def)
    from e0(6) Inl have "e = DatabaseError" by auto
    with insert_profile_failed_effect[OF f] e0 show ?thesis by auto
  next
    case (Inr pid)
    with e0(6) have pid: "pid = profile_id_seq w"
      and tx: "txn_profiles w0 = txn_profiles w @
           [\<lparr>profile_id = profile_id_seq w, platform_number = a, cycle_number = c,
             profile_timestamp = d, latitude = la, longitude = lo\<rparr>]"
      by auto
    obtain r2 w2 where cm: "commit w0 = (r2, w2)" by (cases "commit w0")
    note c0 = commit_effect[OF cm]
    show ?thesis
    proof (cases r2)
      case (Inl e)
      with ex Inr cm assms have f: "insert_profile_failed w2 a c e = (r, w1)"
        by (simp add: insert_profile_metadata_def)
      from c0(1) Inl have "e = DatabaseError" by auto
      with insert_profile_failed_effect[OF f] c0 Inl e0 show ?thesis by auto
    next
      case (Inr u)
      with ex \<open>r0 = Inr pid\<close> cm assms have "r = Inr (Some pid)" "w1 = w2"
        by (simp_all add: insert_profile_metadata_def)
      with c0 Inr e0 pid tx show ?thesis by auto
    qed
  qed
  then show "(r = Inr (Some (profile_id_seq w)) \<and>
          argo_profiles w1 = argo_profiles w @ txn_profiles w @
             [\<lparr>profile_id = profile_id_seq w, platform_number = a, cycle_number = c,
               profile_timestamp = d, latitude = la, longitude = lo\<rparr>] \<and>
          ocean_measurements w1 = ocean_measurements w @ txn_measurements w \<and>
          log w1 = log w \<and> faults w1 = tl (tl (faults w)))
       \<or> ((r = Inr None \<or> r = Inl DatabaseError) \<and>
          argo_profiles w1 = argo_profiles w \<and>
          ocean_measurements w1 = ocean_measurements w \<and>
          log w1 = log w @ [ErrorProfileInsert a c DatabaseError])"
    and "txn_profiles w1 = []" and "txn_measurements w1 = []"
    by blast+
qed


declare paginate.simps [simp del]

lemma concat_paginate: "concat (paginate xs) = xs"
proof (induction xs rule: paginate.induct)
  case (1 xs)
  show ?case
  proof (cases "xs = []")
    case True
    then show ?thesis by (simp add: paginate.simps)
  next
    case False
    with 1 have "concat (paginate (drop 100 xs)) = drop 100 xs" by simp
    with False show ?thesis by (subst paginate.simps) simp
  qed
qed

lemma paginate_Nil_iff: "paginate xs = [] \<longleftrightarrow> xs = []"
  by (subst paginate.simps) simp

lemma paginate_page_size: "page \<in> set (paginate xs) \<Longrightarrow> page \<noteq> [] \<and> length page \<le> 100"
proof (induction xs rule: paginate.induct)
  case (1 xs)
  show ?case
  proof (cases "xs = []")
    case True
    with 1(2) show ?thesis by (simp add: paginate.simps)
  next
    case False
    from 1(2) False have "page = take 100 xs \<or> page \<in> set (paginate (drop 100 xs))"
      by (subst (asm) paginate.simps) simp
    with 1(1) False show ?thesis by auto
  qed
qed

text \<open>
  The pages written before the first statement that fails stay in the open transaction:
  the whole batch, or a part of it.
\<close>

lemma execute_pages_effect:
  assumes "execute_pages w pages = (r, w1)"
  shows "argo_profiles w1 = argo_profiles w \<and> ocean_measurements w1 = ocean_measurements w \<and>
    txn_profiles w1 = txn_profiles w \<and> profile_id_seq w1 = profile_id_seq w \<and> log w1 = log w \<and>
    ((r = Inr () \<and> txn_measurements w1 = txn_measurements w @ concat pages
        \<and> faults w1 = drop (length pages) (faults w)
        \<and> True \<notin> set (take (length pages) (faults w)))
     \<or> (r = Inl DatabaseError \<and>
         (\<exists>k<length pages. txn_measurements w1 = txn_measurements w @ concat (take k pages)
            \<and> faults w1 = drop (Suc k) (faults w) \<and> k < length (faults w) \<and> faults w ! k
            \<and> True \<notin> set (take k (faults w)))))"
  using assms
proof (induction pages arbitrary: w)
  case Nil
  then show ?case by simp
next
  case (Cons page pages)
  show ?case
  proof (cases "faults w \<noteq> [] \<and> hd (faults w)")
    case True
    with Cons.prems have "r = Inl DatabaseError" "w1 = w\<lparr>faults := tl (faults w)\<rparr>"
      by (auto simp: db_call_eq)
    moreover from True have "faults w ! 0" "0 < length (faults w)"
      by (auto simp: hd_conv_nth)
    ultimately show ?thesis
      by (auto simp: drop_Suc intro!: exI[of _ 0])
  next
    case False
    let ?w = "w\<lparr>faults := tl (faults w), txn_measurements := txn_measurements w @ page\<rparr>"
    from False Cons.prems have "execute_pages ?w pages = (r, w1)"
      by (auto simp: db_call_eq)
    from Cons.IH[OF this]
    have same: "argo_profiles w1 = argo_profiles w \<and> ocean_measurements w1 = ocean_measurements w \<and>
        txn_profiles w1 = txn_profiles w \<and> profile_id_seq w1 = profile_id_seq w \<and> log w1 = log w"
      and alt: "(r = Inr () \<and> txn_measurements w1 = (txn_measurements w @ page) @ concat pages
          \<and> faults w1 = drop (length pages) (tl (faults w))
          \<and> True \<notin> set (take (length pages) (tl (faults w))))
       \<or> (r = Inl DatabaseError \<and>
           (\<exists>k<length pages. txn_measurements w1 = (txn_measurements w @ page) @ concat (take k pages)
              \<and> faults w1 = drop (Suc k) (tl (faults w)) \<and> k < length (tl (faults w))
              \<and> tl (faults w) ! k \<and> True \<notin> set (take k (tl (faults w)))))"
      by simp_all
    from False have hd_ok: "True \<notin> set (take (Suc 0) (faults w))"
      by (cases "faults w") auto
    from alt show ?thesis
    proof
      assume a: "r = Inr () \<and> txn_measurements w1 = (txn_measurements w @ page) @ concat pages
          \<and> faults w1 = drop (length pages) (tl (faults w))
          \<and> True \<notin> set (take (length pages) (tl (faults w)))"
      have "True \<notin> set (take (length (page # pages)) (faults w))"
        using a False by (cases "faults w") auto
      with a same show ?thesis by (simp add: drop_Suc)
    next
      assume "r = Inl DatabaseError \<and>
           (\<exists>k<length pages. txn_measurements w1 = (txn_measurements w @ page) @ concat (take k pages)
              \<and> faults w1 = drop (Suc k) (tl (faults w)) \<and> k < length (tl (faults w))
              \<and> tl (faults w) ! k \<and> True \<notin> set (take k (tl (faults w))))"
      then obtain k where k: "r = Inl DatabaseError" "k < length pages"
        "txn_measurements w1 = (txn_measurements w @ page) @ concat (take k pages)"
        "faults w1 = drop (Suc k) (tl (faults w))" "k < length (tl (faults w))"
        "tl (faults w) ! k" "True \<notin> set (take k (tl (faults w)))"
        by blast
      have "Suc k < length (page # pages)" using k(2) by simp
      moreover have "txn_measurements w1 = txn_measurements w @ concat (take (Suc k) (page # pages))"
        using k(3) by simp
      moreover have "faults w1 = drop (Suc (Suc k)) (faults w)"
        using k(4) by (simp add: drop_Suc)
      moreover have "Suc k < length (faults w)" using k(5) by simp
      moreover have "faults w ! Suc k" using k(5,6) by (simp add: nth_tl)
      moreover have "True \<notin> set (take (Suc k) (faults w))"
        using k(7) False by (cases "faults w") auto
      ultimately show ?thesis using same k(1) by blast
    qed
  qed
qed


lemma bulk_insert_failed_effect:
  assumes "bulk_insert_failed w e = (r, w1)"
  shows "argo_profiles w1 = argo_profiles w" "ocean_measurements w1 = ocean_measurements w"
    "txn_profiles w1 = []" "txn_measurements w1 = []"
    "profile_id_seq w1 = profile_id_seq w"
    "log w1 = log w @ [ErrorBulkInsert e]"
    "faults w1 = tl (faults w)"
    "r = Inr () \<or> r = Inl DatabaseError"
    "r = Inr () \<longleftrightarrow> \<not> (faults w \<noteq> [] \<and> hd (faults w))"
  using rollback_effect[OF assms[unfolded bulk_insert_failed_def]] by simp_all

lemma fault_at:
  assumes "fs' = drop k fs"
  shows "(fs' \<noteq> [] \<and> hd fs') = (k < length fs \<and> fs ! k)"
  unfolding assms by (cases "k < length fs") (simp_all add: hd_drop_conv_nth)

text \<open>
  The bulk insert writes the whole batch or nothing. With \<open>n\<close> pages, the calls are the
  \<open>n\<close> INSERT statements and the commit; \<open>k\<close> is the first of them that raises, and the
  call after it is the rollback.
\<close>

lemma bulk_insert_measurements_effect:
  assumes "bulk_insert_measurements w rows = (r, w1)"
  shows "txn_profiles w1 = [] \<and> txn_measurements w1 = [] \<and> profile_id_seq w1 = profile_id_seq w \<and>
    ((r = Inr () \<and> log w1 = log w \<and>
      argo_profiles w1 = argo_profiles w @ txn_profiles w \<and>
      ocean_measurements w1 = ocean_measurements w @ txn_measurements w @ rows \<and>
      True \<notin> set (take (Suc (length (paginate rows))) (faults w)) \<and>
      faults w1 = drop (Suc (length (paginate rows))) (faults w))
     \<or> (log w1 = log w @ [ErrorBulkInsert DatabaseError] \<and>
        argo_profiles w1 = argo_profiles w \<and>
        ocean_measurements w1 = ocean_measurements w \<and>
        (\<exists>k\<le>length (paginate rows). k < length (faults w) \<and> faults w ! k \<and>
            True \<notin> set (take k (faults w)) \<and>
            faults w1 = drop (Suc (Suc k)) (faults w) \<and>
            (r = Inr () \<or> r = Inl DatabaseError) \<and>
            (r = Inr () \<longleftrightarrow> \<not> (Suc k < length (faults w) \<and> faults w ! Suc k)))))"
proof -
  let ?n = "length (paginate rows)"
  obtain r0 w0 where ex: "execute_pages w (paginate rows) = (r0, w0)"
    by (cases "execute_pages w (paginate rows)")
  from execute_pages_effect[OF ex]
  have same: "argo_profiles w0 = argo_profiles w" "ocean_measurements w0 = ocean_measurements w"
      "txn_profiles w0 = txn_profiles w" "profile_id_seq w0 = profile_id_seq w" "log w0 = log w"
    and alt: "(r0 = Inr () \<and> txn_measurements w0 = txn_measurements w @ rows
        \<and> faults w0 = drop ?n (faults w)
        \<and> True \<notin> set (take ?n (faults w)))
     \<or> (r0 = Inl DatabaseError \<and>
         (\<exists>k<?n. faults w0 = drop (Suc k) (faults w) \<and> k < length (faults w) \<and> faults w ! k
            \<and> True \<notin> set (take k (faults w))))"
    by (auto simp: concat_paginate)
  from alt show ?thesis
  proof
    assume ok: "r0 = Inr () \<and> txn_measurements w0 = txn_measurements w @ rows
        \<and> faults w0 = drop ?n (faults w) \<and> True \<notin> set (take ?n (faults w))"
    obtain r2 w2 where cm: "commit w0 = (r2, w2)" by (cases "commit w0")
    note c0 = commit_effect[OF cm]
    show ?thesis
    proof (cases r2)
      case (Inr u)
      with ex ok cm assms have rw: "r = Inr ()" "w1 = w2"
        by (simp_all add: bulk_insert_measurements_def execute_values_def)
      have fa: "(faults w0 \<noteq> [] \<and> hd (faults w0)) = (?n < length (faults w) \<and> faults w ! ?n)"
        by (rule fault_at) (use ok in simp)
      from c0(5) Inr fa have nf: "\<not> (?n < length (faults w) \<and> faults w ! ?n)"
        by auto
      have "True \<notin> set (take (Suc ?n) (faults w))"
      proof (cases "?n < length (faults w)")
        case True
        with nf ok show ?thesis by (auto simp: take_Suc_conv_app_nth)
      next
        case False
        with ok show ?thesis by simp
      qed
      moreover have "faults w1 = drop (Suc ?n) (faults w)"
        using c0(4) ok rw by (simp add: drop_Suc drop_tl)
      ultimately show ?thesis using rw c0 Inr ok same by auto
    next
      case (Inl e)
      with c0(1) have e: "e = DatabaseError" by auto
      from ex ok cm Inl assms have f: "bulk_insert_failed w2 e = (r, w1)"
        by (simp add: bulk_insert_measurements_def execute_values_def)
      note f0 = bulk_insert_failed_effect[OF f]
      have fa: "(faults w0 \<noteq> [] \<and> hd (faults w0)) = (?n < length (faults w) \<and> faults w ! ?n)"
        by (rule fault_at) (use ok in simp)
      from c0(5) Inl fa have kf: "?n < length (faults w)" "faults w ! ?n"
        by auto
      have fw2: "faults w2 = drop (Suc ?n) (faults w)"
        using c0(4) ok by (simp add: drop_Suc drop_tl)
      have "faults w1 = drop (Suc (Suc ?n)) (faults w)"
        using f0(7) fw2 by (simp add: drop_Suc drop_tl)
      moreover have "r = Inr () \<longleftrightarrow> \<not> (Suc ?n < length (faults w) \<and> faults w ! Suc ?n)"
        using f0(9) fault_at[OF fw2] by blast
      moreover have "True \<notin> set (take ?n (faults w))" using ok by simp
      ultimately have "\<exists>k\<le>?n. k < length (faults w) \<and> faults w ! k \<and>
            True \<notin> set (take k (faults w)) \<and>
            faults w1 = drop (Suc (Suc k)) (faults w) \<and>
            (r = Inr () \<or> r = Inl DatabaseError) \<and>
            (r = Inr () \<longleftrightarrow> \<not> (Suc k < length (faults w) \<and> faults w ! Suc k))"
        using kf f0(8) by (intro exI[of _ ?n]) simp
      then show ?thesis using f0 c0 Inl e same by auto
    qed
  next
    assume "r0 = Inl DatabaseError \<and>
         (\<exists>k<?n. faults w0 = drop (Suc k) (faults w) \<and> k < length (faults w) \<and> faults w ! k
            \<and> True \<notin> set (take k (faults w)))"
    then obtain k where r0: "r0 = Inl DatabaseError" and k: "k < ?n"
      "faults w0 = drop (Suc k) (faults w)" "k < length (faults w)" "faults w ! k"
      "True \<notin> set (take k (faults w))"
      by blast
    from ex r0 assms have f: "bulk_insert_failed w0 DatabaseError = (r, w1)"
      by (simp add: bulk_insert_measurements_def execute_values_def)
    note f0 = bulk_insert_failed_effect[OF f]
    have "faults w1 = drop (Suc (Suc k)) (faults w)"
      using f0(7) k(2) by (simp add: drop_Suc drop_tl)
    moreover have "r = Inr () \<longleftrightarrow> \<not> (Suc k < length (faults w) \<and> faults w ! Suc k)"
      using f0(9) fault_at[OF k(2)] by blast
    ultimately have "\<exists>k\<le>?n. k < length (faults w) \<and> faults w ! k \<and>
            True \<notin> set (take k (faults w)) \<and>
            faults w1 = drop (Suc (Suc k)) (faults w) \<and>
            (r = Inr () \<or> r = Inl DatabaseError) \<and>
            (r = Inr () \<longleftrightarrow> \<not> (Suc k < length (faults w) \<and> faults w ! Suc k))"
      using k f0(8) by (intro exI[of _ k]) simp
    then show ?thesis using f0 same by auto
  qed
qed
lemma measurement_tuples_pid:
  "measurement_tuples pid pres temp psal = Inr rows \<Longrightarrow> m \<in> set rows \<Longrightarrow> m_profile_id m = pid"
  by (auto simp: measurement_tuples_def split: if_splits)

lemma extract_rows_tuples:
  assumes "extract_rows prof pid = Inr rows"
  shows "\<exists>pres temp psal. measurement_tuples pid pres temp psal = Inr rows"
proof -
  from assms obtain temp where 1: "filtered (TEMP prof) (TEMP_QC prof) = Inr temp"
    by (cases "filtered (TEMP prof) (TEMP_QC prof)") (simp_all add: extract_rows_def)
  from assms 1 obtain psal where 2: "filtered (PSAL prof) (PSAL_QC prof) = Inr psal"
    by (cases "filtered (PSAL prof) (PSAL_QC prof)") (simp_all add: extract_rows_def)
  from assms 1 2 obtain pres where 3: "filtered (PRES prof) (PRES_QC prof) = Inr pres"
    by (cases "filtered (PRES prof) (PRES_QC prof)") (simp_all add: extract_rows_def)
  from assms 1 2 3 have "measurement_tuples pid pres temp psal = Inr rows"
    by (simp add: extract_rows_def)
  then show ?thesis by blast
qed

lemma extract_rows_ok:
  assumes "extract_rows prof pid = Inr rows" and "m \<in> set rows"
  shows "m_profile_id m = pid \<and> (\<exists>v. pressure_dbar m = Some v \<and> v \<noteq> NaN)"
proof -
  from extract_rows_tuples[OF assms(1)] obtain pres temp psal
    where t: "measurement_tuples pid pres temp psal = Inr rows" by blast
  from measurement_tuples_pid[OF t assms(2)] measurement_tuples_pressure[OF t assms(2)]
  show ?thesis by simp
qed

lemma extract_measurements_effect:
  assumes "extract_measurements w prof pid = (rows, w1)"
  shows "argo_profiles w1 = argo_profiles w" "ocean_measurements w1 = ocean_measurements w"
    "txn_profiles w1 = txn_profiles w" "txn_measurements w1 = txn_measurements w"
    "profile_id_seq w1 = profile_id_seq w" "faults w1 = faults w"
    "\<forall>m\<in>set rows. m_profile_id m = pid \<and> (\<exists>v. pressure_dbar m = Some v \<and> v \<noteq> NaN)"
proof -
  show "argo_profiles w1 = argo_profiles w" "ocean_measurements w1 = ocean_measurements w"
    "txn_profiles w1 = txn_profiles w" "txn_measurements w1 = txn_measurements w"
    "profile_id_seq w1 = profile_id_seq w" "faults w1 = faults w"
    using assms by (auto simp: extract_measurements_def split: sum.splits)
  show "\<forall>m\<in>set rows. m_profile_id m = pid \<and> (\<exists>v. pressure_dbar m = Some v \<and> v \<noteq> NaN)"
  proof (cases "extract_rows prof pid")
    case (Inl e)
    with assms show ?thesis by (simp add: extract_measurements_def)
  next
    case (Inr rs)
    with assms have "rs = rows" by (simp add: extract_measurements_def)
    with Inr extract_rows_ok show ?thesis by blast
  qed
qed

text \<open>Lines 85 to 88 add to the measurement table the rows extracted, or nothing.\<close>

lemma ingest_measurements_effect:
  assumes "ingest_measurements w prof pid = (r, w1)"
    and "txn_profiles w = []" and "txn_measurements w = []"
  shows "argo_profiles w1 = argo_profiles w \<and> txn_profiles w1 = [] \<and> txn_measurements w1 = [] \<and>
    profile_id_seq w1 = profile_id_seq w \<and>
    (\<exists>ms. ocean_measurements w1 = ocean_measurements w @ ms \<and>
       (\<forall>m\<in>set ms. m_profile_id m = pid \<and> (\<exists>v. pressure_dbar m = Some v \<and> v \<noteq> NaN)))"
proof -
  obtain rows w0 where ex: "extract_measurements w prof pid = (rows, w0)"
    by (cases "extract_measurements w prof pid")
  note e0 = extract_measurements_effect[OF ex]
  show ?thesis
  proof (cases "rows = []")
    case True
    with ex assms(1) have "w1 = w0" by (simp add: ingest_measurements_def)
    with e0 assms(2,3) show ?thesis by simp
  next
    case False
    with ex assms(1) have b: "bulk_insert_measurements w0 rows = (r, w1)"
      by (simp add: ingest_measurements_def)
    have idle0: "txn_profiles w0 = []" "txn_measurements w0 = []"
      using e0(3,4) assms(2,3) by simp_all
    note b0 = bulk_insert_measurements_effect[OF b, unfolded idle0]
    from b0 have tx: "txn_profiles w1 = []" "txn_measurements w1 = []"
      "profile_id_seq w1 = profile_id_seq w0"
      by simp_all
    from b0 have ar: "argo_profiles w1 = argo_profiles w0"
      by (elim conjE disjE) simp_all
    from b0 have "ocean_measurements w1 = ocean_measurements w0 @ rows
           \<or> ocean_measurements w1 = ocean_measurements w0 @ []"
      by (elim conjE disjE) simp_all
    then obtain ms where "ocean_measurements w1 = ocean_measurements w0 @ ms" "set ms \<subseteq> set rows"
      by auto
    with e0 tx ar show ?thesis by (intro conjI exI[of _ ms]) auto
  qed
qed

text \<open>
  One turn of the loop either leaves the two tables as they are, or commits one new
  profile row, whose key was not in the store, with measurement rows of that profile only.
\<close>

lemma ingest_profile_effect:
  assumes "ingest_profile w prof a c = (r, w1)"
  shows "(argo_profiles w1 = argo_profiles w \<and> ocean_measurements w1 = ocean_measurements w \<and>
          (txn_profiles w1 = txn_profiles w \<and> txn_measurements w1 = txn_measurements w
           \<or> txn_profiles w1 = [] \<and> txn_measurements w1 = []))
       \<or> (\<exists>row ms. profile_key row = (a, c) \<and> profile_id row = profile_id_seq w \<and>
            argo_profiles w1 = argo_profiles w @ txn_profiles w @ [row] \<and>
            txn_profiles w1 = [] \<and> txn_measurements w1 = [] \<and>
            ocean_measurements w1 = ocean_measurements w @ txn_measurements w @ ms \<and>
            (\<forall>m\<in>set ms. m_profile_id m = profile_id row \<and>
                (\<exists>v. pressure_dbar m = Some v \<and> v \<noteq> NaN)))"
proof -
  consider (raise) "w1 = w"
    | (ins) jd d la lo where "JULD prof = Inr jd" "profile_date_of jd = Inr d"
        "LATITUDE prof = Inr la" "LONGITUDE prof = Inr lo"
    using assms
    by (auto simp: ingest_profile_def split: sum.splits)
  then show ?thesis
  proof cases
    case raise
    then show ?thesis by simp
  next
    case ins
    obtain r0 w0 where im: "insert_profile_metadata w a c d la lo = (r0, w0)"
      by (cases "insert_profile_metadata w a c d la lo")
    note i0 = insert_profile_metadata_effect[OF im]
    let ?row = "\<lparr>profile_id = profile_id_seq w, platform_number = a, cycle_number = c,
               profile_timestamp = d, latitude = la, longitude = lo\<rparr>"
    show ?thesis
    proof (cases "\<exists>pid. r0 = Inr pid \<and> \<not> falsy pid")
      case False
      with assms ins im have "w1 = w0"
        by (auto simp: ingest_profile_def split: sum.splits)
      with i0 have alt: "(argo_profiles w1 = argo_profiles w \<and> ocean_measurements w1 = ocean_measurements w)
         \<or> (argo_profiles w1 = argo_profiles w @ txn_profiles w @ [?row] \<and>
            ocean_measurements w1 = ocean_measurements w @ txn_measurements w @ [])"
        and tx: "txn_profiles w1 = []" "txn_measurements w1 = []"
        by auto
      have key: "profile_key ?row = (a, c)" "profile_id ?row = profile_id_seq w"
        by (simp_all add: profile_key_def)
      from alt show ?thesis
      proof
        assume "argo_profiles w1 = argo_profiles w \<and> ocean_measurements w1 = ocean_measurements w"
        with tx show ?thesis by simp
      next
        assume "argo_profiles w1 = argo_profiles w @ txn_profiles w @ [?row] \<and>
            ocean_measurements w1 = ocean_measurements w @ txn_measurements w @ []"
        with tx key show ?thesis
          by (intro disjI2 exI[of _ ?row] exI[of _ "[]"]) simp
      qed
    next
      case True
      then obtain pid where pid: "r0 = Inr pid" "\<not> falsy pid" by blast
      then have "pid \<noteq> None" by (auto simp: falsy_def split: option.splits)
      with i0(1) pid have ok: "pid = Some (profile_id_seq w)"
        "argo_profiles w0 = argo_profiles w @ txn_profiles w @ [?row]"
        "ocean_measurements w0 = ocean_measurements w @ txn_measurements w"
        by auto
      from assms ins im pid have ig: "ingest_measurements w0 prof (the pid) = (r, w1)"
        by (simp add: ingest_profile_def)
      from ingest_measurements_effect[OF ig i0(2,3)] ok
      obtain ms where "argo_profiles w1 = argo_profiles w @ txn_profiles w @ [?row]"
        "txn_profiles w1 = []" "txn_measurements w1 = []"
        "ocean_measurements w1 = ocean_measurements w @ txn_measurements w @ ms"
        "\<forall>m\<in>set ms. m_profile_id m = profile_id ?row \<and>
                (\<exists>v. pressure_dbar m = Some v \<and> v \<noteq> NaN)"
        by auto
      moreover have "profile_key ?row = (a, c)" "profile_id ?row = profile_id_seq w"
        by (simp_all add: profile_key_def)
      ultimately show ?thesis by blast
    qed
  qed
qed

lemma process_profile_effect:
  assumes "process_profile w prof = (r, w1)"
  shows "(argo_profiles w1 = argo_profiles w \<and> ocean_measurements w1 = ocean_measurements w \<and>
          (txn_profiles w1 = txn_profiles w \<and> txn_measurements w1 = txn_measurements w
           \<or> txn_profiles w1 = [] \<and> txn_measurements w1 = []))
       \<or> (\<exists>row ms. profile_key row \<notin> set (map profile_key (argo_profiles w @ txn_profiles w)) \<and>
            PLATFORM_NUMBER prof = Inr (platform_number row) \<and>
            CYCLE_NUMBER prof = Inr (cycle_number row) \<and>
            profile_id row = profile_id_seq w \<and>
            argo_profiles w1 = argo_profiles w @ txn_profiles w @ [row] \<and>
            txn_profiles w1 = [] \<and> txn_measurements w1 = [] \<and>
            ocean_measurements w1 = ocean_measurements w @ txn_measurements w @ ms \<and>
            (\<forall>m\<in>set ms. m_profile_id m = profile_id row \<and>
                (\<exists>v. pressure_dbar m = Some v \<and> v \<noteq> NaN)))"
proof -
  consider (same) "argo_profiles w1 = argo_profiles w" "ocean_measurements w1 = ocean_measurements w"
      "txn_profiles w1 = txn_profiles w" "txn_measurements w1 = txn_measurements w"
    | (new) a c w0 where "PLATFORM_NUMBER prof = Inr a" "CYCLE_NUMBER prof = Inr c"
        "profile_exists w a c = (Inr False, w0)" "ingest_profile w0 prof a c = (r, w1)"
  proof -
    show ?thesis
    proof (cases "\<exists>a c w0. PLATFORM_NUMBER prof = Inr a \<and> CYCLE_NUMBER prof = Inr c \<and>
        profile_exists w a c = (Inr False, w0)")
      case True
      then obtain a c w0 where h: "PLATFORM_NUMBER prof = Inr a" "CYCLE_NUMBER prof = Inr c"
        "profile_exists w a c = (Inr False, w0)" by blast
      with assms have "ingest_profile w0 prof a c = (r, w1)"
        by (simp add: process_profile_def)
      with h show ?thesis by (rule new)
    next
      case False
      have "argo_profiles w1 = argo_profiles w \<and> ocean_measurements w1 = ocean_measurements w \<and>
        txn_profiles w1 = txn_profiles w \<and> txn_measurements w1 = txn_measurements w"
      proof (cases "PLATFORM_NUMBER prof")
        case (Inl e)
        with assms show ?thesis by (simp add: process_profile_def)
      next
        case a: (Inr a)
        show ?thesis
        proof (cases "CYCLE_NUMBER prof")
          case (Inl e)
          with a assms show ?thesis by (simp add: process_profile_def)
        next
          case c: (Inr c)
          obtain r0 w0 where pe: "profile_exists w a c = (r0, w0)"
            by (cases "profile_exists w a c")
          with False a c have "r0 \<noteq> Inr False" by auto
          with assms a c pe have "w1 = w0"
            by (auto simp: process_profile_def split: sum.splits if_splits)
          with profile_exists_effect[OF pe] show ?thesis by simp
        qed
      qed
      then show ?thesis using same by blast
    qed
  qed
  then show ?thesis
  proof cases
    case same
    then show ?thesis by simp
  next
    case new
    note p0 = profile_exists_effect[OF new(3)]
    from p0(8) have nk: "(a, c) \<notin> set (map profile_key (argo_profiles w @ txn_profiles w))"
      by auto
    from ingest_profile_effect[OF new(4)] show ?thesis
    proof
      assume "argo_profiles w1 = argo_profiles w0 \<and> ocean_measurements w1 = ocean_measurements w0 \<and>
          (txn_profiles w1 = txn_profiles w0 \<and> txn_measurements w1 = txn_measurements w0
           \<or> txn_profiles w1 = [] \<and> txn_measurements w1 = [])"
      with p0 show ?thesis by simp
    next
      assume "\<exists>row ms. profile_key row = (a, c) \<and> profile_id row = profile_id_seq w0 \<and>
            argo_profiles w1 = argo_profiles w0 @ txn_profiles w0 @ [row] \<and>
            txn_profiles w1 = [] \<and> txn_measurements w1 = [] \<and>
            ocean_measurements w1 = ocean_measurements w0 @ txn_measurements w0 @ ms \<and>
            (\<forall>m\<in>set ms. m_profile_id m = profile_id row \<and>
                (\<exists>v. pressure_dbar m = Some v \<and> v \<noteq> NaN))"
      then obtain row ms where rm: "profile_key row = (a, c)" "profile_id row = profile_id_seq w0"
            "argo_profiles w1 = argo_profiles w0 @ txn_profiles w0 @ [row]"
            "txn_profiles w1 = []" "txn_measurements w1 = []"
            "ocean_measurements w1 = ocean_measurements w0 @ txn_measurements w0 @ ms"
            "\<forall>m\<in>set ms. m_profile_id m = profile_id row \<and>
                (\<exists>v. pressure_dbar m = Some v \<and> v \<noteq> NaN)"
        by blast
      from rm(1) have "platform_number row = a" "cycle_number row = c"
        by (simp_all add: profile_key_def)
      with rm p0(1-6) nk new(1,2) show ?thesis
        by (intro disjI2 exI[of _ row] exI[of _ ms]) simp
    qed
  qed
qed
subsection \<open>Two invariants of the store\<close>

lemma process_profile_pressure:
  assumes "process_profile w prof = (r, w1)"
    and "\<forall>m\<in>set (ocean_measurements w @ txn_measurements w).
           \<exists>v. pressure_dbar m = Some v \<and> v \<noteq> NaN"
  shows "\<forall>m\<in>set (ocean_measurements w1 @ txn_measurements w1).
           \<exists>v. pressure_dbar m = Some v \<and> v \<noteq> NaN"
  using process_profile_effect[OF assms(1)]
proof (elim disjE exE conjE)
  assume "ocean_measurements w1 = ocean_measurements w"
    "txn_measurements w1 = txn_measurements w"
  with assms(2) show ?thesis by simp
next
  assume "ocean_measurements w1 = ocean_measurements w" "txn_measurements w1 = []"
  with assms(2) show ?thesis by simp
next
  fix row ms
  assume "ocean_measurements w1 = ocean_measurements w @ txn_measurements w @ ms"
    "txn_measurements w1 = []"
    "\<forall>m\<in>set ms. m_profile_id m = profile_id row \<and> (\<exists>v. pressure_dbar m = Some v \<and> v \<noteq> NaN)"
  with assms(2) show ?thesis by auto
qed

lemma process_profile_distinct:
  assumes "process_profile w prof = (r, w1)"
    and "distinct (map profile_key (argo_profiles w @ txn_profiles w))"
  shows "distinct (map profile_key (argo_profiles w1 @ txn_profiles w1))"
  using process_profile_effect[OF assms(1)]
proof (elim disjE exE conjE)
  assume "argo_profiles w1 = argo_profiles w" "txn_profiles w1 = txn_profiles w"
  with assms(2) show ?thesis by simp
next
  assume "argo_profiles w1 = argo_profiles w" "txn_profiles w1 = []"
  with assms(2) show ?thesis by simp
next
  fix row ms
  assume "profile_key row \<notin> set (map profile_key (argo_profiles w @ txn_profiles w))"
    "argo_profiles w1 = argo_profiles w @ txn_profiles w @ [row]" "txn_profiles w1 = []"
  with assms(2) show ?thesis by simp
qed

lemma process_profiles_pressure:
  assumes "process_profiles w profs = (r, w1)"
    and "\<forall>m\<in>set (ocean_measurements w @ txn_measurements w).
           \<exists>v. pressure_dbar m = Some v \<and> v \<noteq> NaN"
  shows "\<forall>m\<in>set (ocean_measurements w1 @ txn_measurements w1).
           \<exists>v. pressure_dbar m = Some v \<and> v \<noteq> NaN"
  using assms
proof (induction profs arbitrary: w)
  case Nil
  then show ?case by simp
next
  case (Cons prof profs)
  obtain r0 w0 where pp: "process_profile w prof = (r0, w0)"
    by (cases "process_profile w prof")
  note inv0 = process_profile_pressure[OF pp Cons.prems(2)]
  show ?case
  proof (cases r0)
    case (Inl e)
    with pp Cons.prems(1) have "w1 = w0" by simp
    with inv0 show ?thesis by simp
  next
    case (Inr u)
    with pp Cons.prems(1) have "process_profiles w0 profs = (r, w1)" by simp
    from Cons.IH[OF this inv0] show ?thesis .
  qed
qed

lemma process_profiles_distinct:
  assumes "process_profiles w profs = (r, w1)"
    and "distinct (map profile_key (argo_profiles w @ txn_profiles w))"
  shows "distinct (map profile_key (argo_profiles w1 @ txn_profiles w1))"
  using assms
proof (induction profs arbitrary: w)
  case Nil
  then show ?case by simp
next
  case (Cons prof profs)
  obtain r0 w0 where pp: "process_profile w prof = (r0, w0)"
    by (cases "process_profile w prof")
  note inv0 = process_profile_distinct[OF pp Cons.prems(2)]
  show ?case
  proof (cases r0)
    case (Inl e)
    with pp Cons.prems(1) have "w1 = w0" by simp
    with inv0 show ?thesis by simp
  next
    case (Inr u)
    with pp Cons.prems(1) have "process_profiles w0 profs = (r, w1)" by simp
    from Cons.IH[OF this inv0] show ?thesis .
  qed
qed

text \<open>What \<open>process_file\<close> does to the store is what the loop over its profiles did.\<close>

lemma process_file_cases:
  obtains (unreadable) e where "dataset f = Inl e"
      "process_file w f = logging (ErrorFile (file_path f) e) w"
    | (aborted) profs e w1 where "dataset f = Inr profs"
      "process_profiles w profs = (Inl e, w1)"
      "process_file w f = logging (ErrorFile (file_path f) e) w1"
    | (completed) profs w1 where "dataset f = Inr profs"
      "process_profiles w profs = (Inr (), w1)" "process_file w f = w1"
proof (cases "dataset f")
  case (Inl e)
  then show ?thesis using unreadable by (simp add: process_file_def)
next
  case (Inr profs)
  obtain r w1 where pp: "process_profiles w profs = (r, w1)"
    by (cases "process_profiles w profs")
  show ?thesis
  proof (cases r)
    case (Inl e)
    with Inr pp show ?thesis using aborted by (simp add: process_file_def)
  next
    case r: (Inr u)
    with Inr pp show ?thesis using completed by (simp add: process_file_def)
  qed
qed

lemma process_file_pressure:
  assumes "\<forall>m\<in>set (ocean_measurements w @ txn_measurements w).
           \<exists>v. pressure_dbar m = Some v \<and> v \<noteq> NaN"
  shows "\<forall>m\<in>set (ocean_measurements (process_file w f) @ txn_measurements (process_file w f)).
           \<exists>v. pressure_dbar m = Some v \<and> v \<noteq> NaN"
proof (cases f w rule: process_file_cases)
  case (unreadable e)
  with assms show ?thesis by simp
next
  case (aborted profs e w1)
  with process_profiles_pressure[OF aborted(2) assms] show ?thesis by simp
next
  case (completed profs w1)
  with process_profiles_pressure[OF completed(2) assms] show ?thesis by simp
qed

lemma process_file_distinct:
  assumes "distinct (map profile_key (argo_profiles w @ txn_profiles w))"
  shows "distinct (map profile_key
           (argo_profiles (process_file w f) @ txn_profiles (process_file w f)))"
proof (cases f w rule: process_file_cases)
  case (unreadable e)
  with assms show ?thesis by simp
next
  case (aborted profs e w1)
  with process_profiles_distinct[OF aborted(2) assms] show ?thesis by simp
next
  case (completed profs w1)
  with process_profiles_distinct[OF completed(2) assms] show ?thesis by simp
qed

lemma convert_all_pressure:
  assumes "\<forall>m\<in>set (ocean_measurements w @ txn_measurements w).
           \<exists>v. pressure_dbar m = Some v \<and> v \<noteq> NaN"
  shows "\<forall>m\<in>set (ocean_measurements (convert_all w fs) @ txn_measurements (convert_all w fs)).
           \<exists>v. pressure_dbar m = Some v \<and> v \<noteq> NaN"
  using assms
proof (induction fs arbitrary: w)
  case Nil
  then show ?case by simp
next
  case (Cons f fs)
  from Cons.IH[OF process_file_pressure[OF Cons.prems]] show ?case by simp
qed

lemma convert_all_distinct:
  assumes "distinct (map profile_key (argo_profiles w @ txn_profiles w))"
  shows "distinct (map profile_key
           (argo_profiles (convert_all w fs) @ txn_profiles (convert_all w fs)))"
  using assms
proof (induction fs arbitrary: w)
  case Nil
  then show ?case by simp
next
  case (Cons f fs)
  from Cons.IH[OF process_file_distinct[OF Cons.prems]] show ?case by simp
qed

lemma convert_all_append:
  "convert_all w (fs @ gs) = convert_all (convert_all w fs) gs"
  by (induction fs arbitrary: w) simp_all
lemma dropna_pressures:
  "length xs = length ys \<Longrightarrow>
   map (\<lambda>(p, q). nan_to_None p) (filter (\<lambda>(p, q). p \<noteq> NaN) (zip xs ys))
     = map Some (filter (\<lambda>p. p \<noteq> NaN) xs)"
  by (induction xs ys rule: list_induct2) (auto simp: nan_to_None_def)

lemma measurement_tuples_pressures:
  assumes "measurement_tuples pid pres temp psal = Inr rows"
  shows "map pressure_dbar rows = map Some (filter (\<lambda>p. p \<noteq> NaN) pres)"
proof -
  from assms have len: "length pres = length (zip temp psal)"
    by (auto simp: measurement_tuples_def split: if_splits)
  from assms have "map pressure_dbar rows =
      map (\<lambda>(p, q). nan_to_None p) (filter (\<lambda>(p, q). p \<noteq> NaN) (zip pres (zip temp psal)))"
    by (auto simp: measurement_tuples_def case_prod_unfold split: if_splits)
  with dropna_pressures[OF len] show ?thesis by simp
qed
subsection \<open>Calls that succeed\<close>

lemma no_fault_Suc:
  "True \<notin> set (take (Suc n) fs) \<longleftrightarrow> \<not> (fs \<noteq> [] \<and> hd fs) \<and> True \<notin> set (take n (tl fs))"
  by (cases fs) auto

lemma profile_exists_ok:
  assumes "\<not> (faults w \<noteq> [] \<and> hd (faults w))"
  shows "profile_exists w a c =
    (Inr ((a, c) \<in> set (map profile_key (argo_profiles w @ txn_profiles w))),
     w\<lparr>faults := tl (faults w)\<rparr>)"
  using assms by (auto simp: profile_exists_def db_call_eq)

lemma insert_profile_metadata_ok:
  assumes "True \<notin> set (take 2 (faults w))"
  shows "insert_profile_metadata w a c d la lo =
    (Inr (Some (profile_id_seq w)),
     w\<lparr>faults := tl (tl (faults w)),
       argo_profiles := argo_profiles w @ txn_profiles w @
          [\<lparr>profile_id = profile_id_seq w, platform_number = a, cycle_number = c,
            profile_timestamp = d, latitude = la, longitude = lo\<rparr>],
       ocean_measurements := ocean_measurements w @ txn_measurements w,
       txn_profiles := [], txn_measurements := [],
       profile_id_seq := profile_id_seq w + 1\<rparr>)"
proof -
  from assms have 1: "\<not> (faults w \<noteq> [] \<and> hd (faults w))"
    and 2: "\<not> (tl (faults w) \<noteq> [] \<and> hd (tl (faults w)))"
    by (simp_all add: numeral_2_eq_2 no_fault_Suc)
  from 1 have ex: "execute_insert_profile w a c d la lo =
     (Inr (profile_id_seq w),
      w\<lparr>faults := tl (faults w),
        txn_profiles := txn_profiles w @
          [\<lparr>profile_id = profile_id_seq w, platform_number = a, cycle_number = c,
            profile_timestamp = d, latitude = la, longitude = lo\<rparr>],
        profile_id_seq := profile_id_seq w + 1\<rparr>)"
    by (auto simp: execute_insert_profile_def db_call_eq)
  show ?thesis
    unfolding insert_profile_metadata_def ex
    using 2 by (auto simp: commit_def db_call_eq)
qed
lemma process_profiles_append:
  assumes "process_profiles w pre = (Inr (), w1)"
  shows "process_profiles w (pre @ profs) = process_profiles w1 profs"
  using assms
proof (induction pre arbitrary: w)
  case Nil
  then show ?case by simp
next
  case (Cons p pre)
  obtain r0 w0 where pp: "process_profile w p = (r0, w0)" by (cases "process_profile w p")
  with Cons.prems have r0: "r0 = Inr ()" and rest: "process_profiles w0 pre = (Inr (), w1)"
    by (auto split: sum.splits)
  from Cons.IH[OF rest] pp r0 show ?case by simp
qed

lemma profile_date_of_nonfinite:
  "profile_date_of NaN = Inl ValueError"
  "profile_date_of PosInf = Inl OverflowError"
  "profile_date_of NegInf = Inl OverflowError"
  by (simp_all add: profile_date_of_def timedelta_days_def)

subsection \<open>The conversion of the Julian day\<close>






subsection \<open>The calendar: a day number and its date\<close>













subsection \<open>Runs on a connection where no call fails\<close>








lemma profile_known_logging [simp]: "profile_known (logging e w) prof = profile_known w prof"
  by (simp add: profile_known_def split: sum.splits)



subsection \<open>The claims\<close>



text \<open>
  C2, the pressure-required invariant. The rows that \<open>_extract_measurements\<close> returns,
  which are the rows handed to the bulk insert, all have a pressure that is neither
  \<open>None\<close> nor NaN; they are, in order, the depth samples whose filtered pressure is not
  missing, whatever their temperature and salinity; and when the measurement table and
  the open transaction start with rows that have a pressure, every row of the table has
  one after any run.
\<close>

theorem pressure_required:
  assumes "\<forall>m\<in>set (ocean_measurements w @ txn_measurements w).
             \<exists>v. pressure_dbar m = Some v \<and> v \<noteq> NaN"
  shows "(\<forall>m\<in>set (fst (extract_measurements w0 prof pid)).
             \<exists>v. pressure_dbar m = Some v \<and> v \<noteq> NaN)
       \<and> (\<forall>rows. measurement_tuples pid pres temp psal = Inr rows \<longrightarrow>
             map pressure_dbar rows = map Some (filter (\<lambda>p. p \<noteq> NaN) pres))
       \<and> (\<forall>m\<in>set (ocean_measurements (convert_all w fs)).
             \<exists>v. pressure_dbar m = Some v \<and> v \<noteq> NaN)"
proof (intro conjI)
  obtain rows w1 where ex: "extract_measurements w0 prof pid = (rows, w1)"
    by (cases "extract_measurements w0 prof pid")
  from extract_measurements_effect(7)[OF ex] ex
  show "\<forall>m\<in>set (fst (extract_measurements w0 prof pid)).
             \<exists>v. pressure_dbar m = Some v \<and> v \<noteq> NaN"
    by simp
  show "\<forall>rows. measurement_tuples pid pres temp psal = Inr rows \<longrightarrow>
             map pressure_dbar rows = map Some (filter (\<lambda>p. p \<noteq> NaN) pres)"
    using measurement_tuples_pressures by blast
  from convert_all_pressure[OF assms, of fs]
  show "\<forall>m\<in>set (ocean_measurements (convert_all w fs)).
             \<exists>v. pressure_dbar m = Some v \<and> v \<noteq> NaN"
    by simp
qed

theorem pressure_required_witness:
  "ocean_measurements empty_store @ txn_measurements empty_store = []
   \<and> map pressure_dbar (ocean_measurements (convert_all empty_store [example_file]))
       = [Some (Finite 5), Some (Finite 10)]
   \<and> list_all (\<lambda>m. \<exists>v. pressure_dbar m = Some v \<and> v \<noteq> NaN)
        (ocean_measurements (convert_all empty_store [example_file]))"
proof -
  have e: "ocean_measurements empty_store @ txn_measurements empty_store = []"
    by (simp add: empty_store_def)
  then have h: "\<forall>m\<in>set (ocean_measurements empty_store @ txn_measurements empty_store).
       \<exists>v. pressure_dbar m = Some v \<and> v \<noteq> NaN"
    by simp
  have n: "map pressure_dbar (ocean_measurements (convert_all empty_store [example_file]))
       = [Some (Finite 5), Some (Finite 10)]"
    by code_simp
  from pressure_required[OF h, of _ _ _ _ _ _ "[example_file]"]
  have "list_all (\<lambda>m. \<exists>v. pressure_dbar m = Some v \<and> v \<noteq> NaN)
        (ocean_measurements (convert_all empty_store [example_file]))"
    by (simp add: list_all_iff)
  with e n show ?thesis by blast
qed

text \<open>
  C4, profile uniqueness. When no two profile rows of the store (committed or written
  in the open transaction) share the pair (platform_number, cycle_number), no two rows
  of the profile table share it after the run over any list of files, whatever calls to
  the database fail.
\<close>

theorem profile_uniqueness:
  assumes "distinct (map profile_key (argo_profiles w @ txn_profiles w))"
  shows "distinct (map profile_key (argo_profiles (convert_all w fs)))"
  using convert_all_distinct[OF assms, of fs] by simp

theorem profile_uniqueness_witness:
  "distinct (map profile_key (argo_profiles empty_store @ txn_profiles empty_store))
   \<and> map profile_key (argo_profiles (convert_all empty_store [example_file, example_file]))
       = [(1901393, 1)]
   \<and> distinct (map profile_key
        (argo_profiles (convert_all empty_store [example_file, example_file])))"
proof -
  have h: "distinct (map profile_key (argo_profiles empty_store @ txn_profiles empty_store))"
    by (simp add: empty_store_def)
  have n: "map profile_key (argo_profiles (convert_all empty_store [example_file, example_file]))
       = [(1901393, 1)]"
    by code_simp
  from profile_uniqueness[OF h, of "[example_file, example_file]"] h n show ?thesis
    by blast
qed

text \<open>
  C6, measurement-batch atomicity. On a connection with no uncommitted rows,
  \<open>_bulk_insert_measurements\<close> leaves the profile table as it is and no open
  transaction, and the measurement table is either extended by the whole batch (when
  none of the INSERT statements nor the commit raises) or unchanged (when one of them
  raises: the error is logged and the transaction rolled back). The function returns
  normally in both cases; an exception leaves it only when the rollback raises too.
\<close>

theorem measurement_batch_atomic:
  assumes "txn_profiles w = []" and "txn_measurements w = []"
    and "bulk_insert_measurements w rows = (r, w1)"
  shows "argo_profiles w1 = argo_profiles w \<and> txn_profiles w1 = [] \<and> txn_measurements w1 = [] \<and>
    ((r = Inr () \<and> log w1 = log w \<and>
      ocean_measurements w1 = ocean_measurements w @ rows \<and>
      True \<notin> set (take (Suc (length (paginate rows))) (faults w)))
     \<or> (log w1 = log w @ [ErrorBulkInsert DatabaseError] \<and>
        ocean_measurements w1 = ocean_measurements w \<and>
        (\<exists>k\<le>length (paginate rows). k < length (faults w) \<and> faults w ! k \<and>
            True \<notin> set (take k (faults w)) \<and>
            (r = Inr () \<or> r = Inl DatabaseError) \<and>
            (r = Inr () \<longleftrightarrow> \<not> (Suc k < length (faults w) \<and> faults w ! Suc k)))))"
proof -
  note b0 = bulk_insert_measurements_effect[OF assms(3), unfolded assms(1,2)]
  from b0 have tx: "txn_profiles w1 = []" "txn_measurements w1 = []" by simp_all
  from b0 have ar: "argo_profiles w1 = argo_profiles w" by (elim conjE disjE) simp_all
  from b0 have "(r = Inr () \<and> log w1 = log w \<and>
      ocean_measurements w1 = ocean_measurements w @ rows \<and>
      True \<notin> set (take (Suc (length (paginate rows))) (faults w)))
     \<or> (log w1 = log w @ [ErrorBulkInsert DatabaseError] \<and>
        ocean_measurements w1 = ocean_measurements w \<and>
        (\<exists>k\<le>length (paginate rows). k < length (faults w) \<and> faults w ! k \<and>
            True \<notin> set (take k (faults w)) \<and>
            (r = Inr () \<or> r = Inl DatabaseError) \<and>
            (r = Inr () \<longleftrightarrow> \<not> (Suc k < length (faults w) \<and> faults w ! Suc k))))"
    by (simp only: append_Nil) blast
  with tx ar show ?thesis by blast
qed

theorem measurement_batch_atomic_witness:
  "txn_profiles failing_store = [] \<and> txn_measurements failing_store = []
   \<and> length (paginate example_batch) = 2
   \<and> fst (bulk_insert_measurements failing_store example_batch) = Inr ()
   \<and> ocean_measurements (snd (bulk_insert_measurements failing_store example_batch))
       = ocean_measurements failing_store
   \<and> log (snd (bulk_insert_measurements failing_store example_batch))
       = [ErrorBulkInsert DatabaseError]"
proof -
  have h1: "txn_profiles failing_store = []" and h2: "txn_measurements failing_store = []"
    by (simp_all add: failing_store_def empty_store_def)
  have h3: "bulk_insert_measurements failing_store example_batch =
      (fst (bulk_insert_measurements failing_store example_batch),
       snd (bulk_insert_measurements failing_store example_batch))"
    by simp
  have n: "length (paginate example_batch) = 2" by code_simp
  have f: "faults failing_store = [False, True]" "log failing_store = []"
    by (simp_all add: failing_store_def empty_store_def)
  have t: "True \<in> set (take (Suc (length (paginate example_batch))) (faults failing_store))"
    by (simp add: n f)
  from measurement_batch_atomic[OF h1 h2 h3] t
  have fail: "log (snd (bulk_insert_measurements failing_store example_batch))
        = log failing_store @ [ErrorBulkInsert DatabaseError]"
      "ocean_measurements (snd (bulk_insert_measurements failing_store example_batch))
        = ocean_measurements failing_store"
      "\<exists>k\<le>length (paginate example_batch). k < length (faults failing_store) \<and>
         faults failing_store ! k \<and> True \<notin> set (take k (faults failing_store)) \<and>
         (fst (bulk_insert_measurements failing_store example_batch) = Inr () \<longleftrightarrow>
            \<not> (Suc k < length (faults failing_store) \<and> faults failing_store ! Suc k))"
    by blast+
  from fail(3) obtain k where k: "k < length (faults failing_store)" "faults failing_store ! k"
      "fst (bulk_insert_measurements failing_store example_batch) = Inr () \<longleftrightarrow>
            \<not> (Suc k < length (faults failing_store) \<and> faults failing_store ! Suc k)"
    by blast
  from k(1,2) have "k = 1" by (auto simp: f less_Suc_eq nth_Cons')
  with k(3) have "fst (bulk_insert_measurements failing_store example_batch) = Inr ()"
    by (simp add: f)
  with h1 h2 n fail(1,2) f show ?thesis by simp
qed

text \<open>
  C5, duplicate skip. When the existence check for the profile's pair answers that the
  pair is in the store, the turn of the loop ends there and the loop goes on with the
  next profile: nothing in the store or the log changes (only the one call to the
  database was made), and this holds whatever the other fields of the profile are, also
  when reading them would raise.
\<close>

theorem duplicate_skip:
  assumes "PLATFORM_NUMBER prof = Inr a" and "CYCLE_NUMBER prof = Inr c"
    and "profile_exists w a c = (Inr True, w1)"
  shows "process_profile w (prof\<lparr>JULD := j, LATITUDE := la, LONGITUDE := lo,
            TEMP := t, TEMP_QC := tq, PSAL := s, PSAL_QC := sq, PRES := p, PRES_QC := pq\<rparr>)
           = (Inr (), w1)
       \<and> process_profiles w (prof # rest) = process_profiles w1 rest
       \<and> argo_profiles w1 = argo_profiles w \<and> ocean_measurements w1 = ocean_measurements w
       \<and> txn_profiles w1 = txn_profiles w \<and> txn_measurements w1 = txn_measurements w
       \<and> profile_id_seq w1 = profile_id_seq w \<and> log w1 = log w
       \<and> faults w1 = tl (faults w)"
proof -
  have "process_profile w (prof\<lparr>JULD := j, LATITUDE := la, LONGITUDE := lo,
            TEMP := t, TEMP_QC := tq, PSAL := s, PSAL_QC := sq, PRES := p, PRES_QC := pq\<rparr>)
           = (Inr (), w1)"
    using assms by (simp add: process_profile_def)
  moreover have "process_profile w prof = (Inr (), w1)"
    using assms by (simp add: process_profile_def)
  then have "process_profiles w (prof # rest) = process_profiles w1 rest" by simp
  ultimately show ?thesis using profile_exists_effect(1-7)[OF assms(3)] by simp
qed

theorem duplicate_skip_witness:
  "PLATFORM_NUMBER example_profile = Inr 1901393 \<and> CYCLE_NUMBER example_profile = Inr 1
   \<and> profile_exists (convert_all empty_store [example_file]) 1901393 1
        = (Inr True, convert_all empty_store [example_file])
   \<and> process_profile (convert_all empty_store [example_file]) key_only_profile
        = (Inr (), convert_all empty_store [example_file])"
proof -
  have h1: "PLATFORM_NUMBER example_profile = Inr 1901393"
    and h2: "CYCLE_NUMBER example_profile = Inr 1"
    by (simp_all add: example_profile_def)
  have h3: "profile_exists (convert_all empty_store [example_file]) 1901393 1
        = (Inr True, convert_all empty_store [example_file])"
    by code_simp
  from duplicate_skip[OF h1 h2 h3, of "Inl KeyError" "Inl KeyError" "Inl KeyError"
      "Inl KeyError" "Inl KeyError" "Inl KeyError" "Inl KeyError" "Inl KeyError" "Inl KeyError"]
  have "process_profile (convert_all empty_store [example_file]) key_only_profile
        = (Inr (), convert_all empty_store [example_file])"
    by (simp add: key_only_profile_def)
  with h1 h2 h3 show ?thesis by simp
qed

text \<open>
  C8, per-file failure isolation. Whatever happens in a file, the files after it are
  processed, from the state that file left. A file that does not open leaves the store as
  it was and adds one line to the log; an exception that leaves the loop over the
  profiles is caught by \<open>process_file\<close>, which logs it and returns.
\<close>

theorem file_failure_isolated:
  "convert_all w (fs @ f # gs) = convert_all (process_file (convert_all w fs) f) gs
   \<and> (dataset f = Inl e \<longrightarrow>
        process_file w f = logging (ErrorFile (file_path f) e) w \<and>
        argo_profiles (process_file w f) = argo_profiles w \<and>
        ocean_measurements (process_file w f) = ocean_measurements w \<and>
        log (process_file w f) = log w @ [ErrorFile (file_path f) e] \<and>
        convert_all w (f # gs) = convert_all (logging (ErrorFile (file_path f) e) w) gs)
   \<and> (dataset f = Inr profs \<and> process_profiles w profs = (Inl e, w1) \<longrightarrow>
        process_file w f = logging (ErrorFile (file_path f) e) w1 \<and>
        convert_all w (f # gs) = convert_all (logging (ErrorFile (file_path f) e) w1) gs)"
  by (simp add: convert_all_append process_file_def)

theorem file_failure_isolated_witness:
  "dataset unreadable_file = Inl OpenError
   \<and> convert_all empty_store [unreadable_file, example_file]
       = convert_all (logging (ErrorFile ''bad.nc'' OpenError) empty_store) [example_file]
   \<and> length (argo_profiles (convert_all empty_store [unreadable_file, example_file])) = 1
   \<and> dataset three_profile_file = Inr [example_profile, undated_profile, third_profile]
   \<and> fst (process_profiles empty_store [example_profile, undated_profile, third_profile])
       = Inl ValueError
   \<and> convert_all empty_store [three_profile_file, unreadable_file]
       = convert_all (logging (ErrorFile ''c.nc'' ValueError)
           (snd (process_profiles empty_store [example_profile, undated_profile, third_profile])))
           [unreadable_file]"
proof -
  have h1: "dataset unreadable_file = Inl OpenError"
    and p1: "file_path unreadable_file = ''bad.nc''"
    by (simp_all add: unreadable_file_def)
  have h2: "dataset three_profile_file = Inr [example_profile, undated_profile, third_profile]"
    and p2: "file_path three_profile_file = ''c.nc''"
    by (simp_all add: three_profile_file_def)
  have r: "fst (process_profiles empty_store [example_profile, undated_profile, third_profile])
       = Inl ValueError"
    by code_simp
  then have h3: "process_profiles empty_store [example_profile, undated_profile, third_profile]
       = (Inl ValueError,
          snd (process_profiles empty_store [example_profile, undated_profile, third_profile]))"
    by (simp add: prod_eq_iff)
  have n: "length (argo_profiles (convert_all empty_store [unreadable_file, example_file])) = 1"
    by code_simp
  from file_failure_isolated[of empty_store "[]" unreadable_file "[example_file]" OpenError]
    h1 p1
  have a: "convert_all empty_store [unreadable_file, example_file]
       = convert_all (logging (ErrorFile ''bad.nc'' OpenError) empty_store) [example_file]"
    by simp
  from file_failure_isolated[of empty_store "[]" three_profile_file "[unreadable_file]"
      ValueError "[example_profile, undated_profile, third_profile]"
      "snd (process_profiles empty_store [example_profile, undated_profile, third_profile])"]
    h2 h3 p2
  have b: "convert_all empty_store [three_profile_file, unreadable_file]
       = convert_all (logging (ErrorFile ''c.nc'' ValueError)
           (snd (process_profiles empty_store [example_profile, undated_profile, third_profile])))
           [unreadable_file]"
    by simp
  from h1 h2 r n a b show ?thesis by simp
qed

text \<open>
  C9, an exception in the metadata of one profile. When the profiles before it were
  processed and reading or converting the platform number, the cycle number or (the
  pair being new) the Julian day, the latitude or the longitude of a profile raises,
  \<open>process_file\<close> ends there: it logs the exception, and the two tables are as the
  profiles before it left them, whatever profiles follow in the file. A Julian day that
  is NaN or infinite makes the conversion raise.
\<close>

theorem metadata_exception_aborts_file:
  assumes "dataset f = Inr (pre @ prof # rest)"
    and "process_profiles w pre = (Inr (), w1)"
    and "PLATFORM_NUMBER prof = Inl e
       \<or> (\<exists>a. PLATFORM_NUMBER prof = Inr a \<and> CYCLE_NUMBER prof = Inl e)
       \<or> (\<exists>a c. PLATFORM_NUMBER prof = Inr a \<and> CYCLE_NUMBER prof = Inr c \<and>
            fst (profile_exists w1 a c) = Inr False \<and>
            (JULD prof = Inl e
             \<or> (\<exists>j. JULD prof = Inr j \<and> profile_date_of j = Inl e)
             \<or> (\<exists>j d. JULD prof = Inr j \<and> profile_date_of j = Inr d \<and> LATITUDE prof = Inl e)
             \<or> (\<exists>j d la. JULD prof = Inr j \<and> profile_date_of j = Inr d \<and>
                   LATITUDE prof = Inr la \<and> LONGITUDE prof = Inl e)))"
  shows "argo_profiles (process_file w f) = argo_profiles w1
       \<and> ocean_measurements (process_file w f) = ocean_measurements w1
       \<and> txn_profiles (process_file w f) = txn_profiles w1
       \<and> txn_measurements (process_file w f) = txn_measurements w1
       \<and> log (process_file w f) = log w1 @ [ErrorFile (file_path f) e]
       \<and> profile_date_of NaN = Inl ValueError
       \<and> profile_date_of PosInf = Inl OverflowError
       \<and> profile_date_of NegInf = Inl OverflowError"
proof -
  have "\<exists>w2. process_profile w1 prof = (Inl e, w2) \<and>
      argo_profiles w2 = argo_profiles w1 \<and> ocean_measurements w2 = ocean_measurements w1 \<and>
      txn_profiles w2 = txn_profiles w1 \<and> txn_measurements w2 = txn_measurements w1 \<and>
      log w2 = log w1"
    using assms(3)
  proof (elim disjE exE conjE)
    assume "PLATFORM_NUMBER prof = Inl e"
    then show ?thesis by (simp add: process_profile_def)
  next
    fix a assume "PLATFORM_NUMBER prof = Inr a" "CYCLE_NUMBER prof = Inl e"
    then show ?thesis by (simp add: process_profile_def)
  next
    fix a c
    assume k: "PLATFORM_NUMBER prof = Inr a" "CYCLE_NUMBER prof = Inr c"
      "fst (profile_exists w1 a c) = Inr False" and j: "JULD prof = Inl e"
    obtain w0 where pe: "profile_exists w1 a c = (Inr False, w0)"
      using k(3) by (cases "profile_exists w1 a c") simp
    from k pe j have "process_profile w1 prof = (Inl e, w0)"
      by (simp add: process_profile_def ingest_profile_def)
    with profile_exists_effect(1-6)[OF pe] show ?thesis by simp
  next
    fix a c j
    assume k: "PLATFORM_NUMBER prof = Inr a" "CYCLE_NUMBER prof = Inr c"
      "fst (profile_exists w1 a c) = Inr False"
      and j: "JULD prof = Inr j" "profile_date_of j = Inl e"
    obtain w0 where pe: "profile_exists w1 a c = (Inr False, w0)"
      using k(3) by (cases "profile_exists w1 a c") simp
    from k pe j have "process_profile w1 prof = (Inl e, w0)"
      by (simp add: process_profile_def ingest_profile_def)
    with profile_exists_effect(1-6)[OF pe] show ?thesis by simp
  next
    fix a c j d
    assume k: "PLATFORM_NUMBER prof = Inr a" "CYCLE_NUMBER prof = Inr c"
      "fst (profile_exists w1 a c) = Inr False"
      and j: "JULD prof = Inr j" "profile_date_of j = Inr d" "LATITUDE prof = Inl e"
    obtain w0 where pe: "profile_exists w1 a c = (Inr False, w0)"
      using k(3) by (cases "profile_exists w1 a c") simp
    from k pe j have "process_profile w1 prof = (Inl e, w0)"
      by (simp add: process_profile_def ingest_profile_def)
    with profile_exists_effect(1-6)[OF pe] show ?thesis by simp
  next
    fix a c j d la
    assume k: "PLATFORM_NUMBER prof = Inr a" "CYCLE_NUMBER prof = Inr c"
      "fst (profile_exists w1 a c) = Inr False"
      and j: "JULD prof = Inr j" "profile_date_of j = Inr d" "LATITUDE prof = Inr la"
        "LONGITUDE prof = Inl e"
    obtain w0 where pe: "profile_exists w1 a c = (Inr False, w0)"
      using k(3) by (cases "profile_exists w1 a c") simp
    from k pe j have "process_profile w1 prof = (Inl e, w0)"
      by (simp add: process_profile_def ingest_profile_def)
    with profile_exists_effect(1-6)[OF pe] show ?thesis by simp
  qed
  then obtain w2 where w2: "process_profile w1 prof = (Inl e, w2)"
      "argo_profiles w2 = argo_profiles w1" "ocean_measurements w2 = ocean_measurements w1"
      "txn_profiles w2 = txn_profiles w1" "txn_measurements w2 = txn_measurements w1"
      "log w2 = log w1"
    by blast
  have "process_profiles w (pre @ prof # rest) = (Inl e, w2)"
    using process_profiles_append[OF assms(2), of "prof # rest"] w2(1) by simp
  with assms(1) have "process_file w f = logging (ErrorFile (file_path f) e) w2"
    by (simp add: process_file_def)
  with w2(2-6) profile_date_of_nonfinite show ?thesis by simp
qed

theorem metadata_exception_aborts_file_witness:
  "dataset three_profile_file = Inr ([example_profile] @ undated_profile # [third_profile])
   \<and> process_profiles empty_store [example_profile]
        = (Inr (), convert_all empty_store [example_file])
   \<and> PLATFORM_NUMBER undated_profile = Inr 1901393
   \<and> CYCLE_NUMBER undated_profile = Inr 2
   \<and> fst (profile_exists (convert_all empty_store [example_file]) 1901393 2) = Inr False
   \<and> JULD undated_profile = Inr NaN \<and> profile_date_of NaN = Inl ValueError
   \<and> argo_profiles (process_file empty_store three_profile_file)
        = argo_profiles (convert_all empty_store [example_file])
   \<and> ocean_measurements (process_file empty_store three_profile_file)
        = ocean_measurements (convert_all empty_store [example_file])
   \<and> log (process_file empty_store three_profile_file) = [ErrorFile ''c.nc'' ValueError]"
proof -
  have h1: "dataset three_profile_file = Inr ([example_profile] @ undated_profile # [third_profile])"
    and p: "file_path three_profile_file = ''c.nc''"
    by (simp_all add: three_profile_file_def)
  have h2: "process_profiles empty_store [example_profile]
        = (Inr (), convert_all empty_store [example_file])"
    by code_simp
  have k: "PLATFORM_NUMBER undated_profile = Inr 1901393"
    "CYCLE_NUMBER undated_profile = Inr 2" "JULD undated_profile = Inr NaN"
    by (simp_all add: undated_profile_def example_profile_def)
  have x: "fst (profile_exists (convert_all empty_store [example_file]) 1901393 2) = Inr False"
    by code_simp
  have d: "profile_date_of NaN = Inl ValueError" by (simp add: profile_date_of_nonfinite)
  have l: "log (convert_all empty_store [example_file]) = []" by code_simp
  have h3: "PLATFORM_NUMBER undated_profile = Inl ValueError
       \<or> (\<exists>a. PLATFORM_NUMBER undated_profile = Inr a \<and> CYCLE_NUMBER undated_profile = Inl ValueError)
       \<or> (\<exists>a c. PLATFORM_NUMBER undated_profile = Inr a \<and> CYCLE_NUMBER undated_profile = Inr c \<and>
            fst (profile_exists (convert_all empty_store [example_file]) a c) = Inr False \<and>
            (JULD undated_profile = Inl ValueError
             \<or> (\<exists>j. JULD undated_profile = Inr j \<and> profile_date_of j = Inl ValueError)
             \<or> (\<exists>j d. JULD undated_profile = Inr j \<and> profile_date_of j = Inr d \<and>
                   LATITUDE undated_profile = Inl ValueError)
             \<or> (\<exists>j d la. JULD undated_profile = Inr j \<and> profile_date_of j = Inr d \<and>
                   LATITUDE undated_profile = Inr la \<and> LONGITUDE undated_profile = Inl ValueError)))"
    using k x d by blast
  from metadata_exception_aborts_file[OF h1 h2 h3] h1 h2 k x d l p show ?thesis by simp
qed

text \<open>
  C10, a falsy \<open>profile_id\<close>. When the metadata insert returns \<open>None\<close> (it failed) or
  \<open>0\<close>, the turn of the loop ends at once, in the state the insert left: no measurement
  is extracted or inserted. In particular, when the pair is new, the metadata reads, the
  three calls to the database (SELECT, INSERT, commit) succeed and the generator gives 0,
  the profile row with \<open>profile_id\<close> 0 is committed, and then nothing more happens for
  this profile: no further call to the database, no line in the log, no measurement row,
  whatever its arrays hold.
\<close>

theorem falsy_profile_id_skips_measurements:
  assumes "PLATFORM_NUMBER prof = Inr a" and "CYCLE_NUMBER prof = Inr c"
    and "(a, c) \<notin> set (map profile_key (argo_profiles w @ txn_profiles w))"
    and "JULD prof = Inr j" and "profile_date_of j = Inr d"
    and "LATITUDE prof = Inr la" and "LONGITUDE prof = Inr lo"
    and "True \<notin> set (take 3 (faults w))"
    and "profile_id_seq w = 0"
  shows "fst (process_profile w prof) = Inr ()
       \<and> argo_profiles (snd (process_profile w prof)) = argo_profiles w @ txn_profiles w @
            [\<lparr>profile_id = 0, platform_number = a, cycle_number = c,
              profile_timestamp = d, latitude = la, longitude = lo\<rparr>]
       \<and> ocean_measurements (snd (process_profile w prof))
            = ocean_measurements w @ txn_measurements w
       \<and> txn_measurements (snd (process_profile w prof)) = []
       \<and> log (snd (process_profile w prof)) = log w
       \<and> faults (snd (process_profile w prof)) = drop 3 (faults w)
       \<and> (\<forall>w' pid w2. insert_profile_metadata w' a c d la lo = (Inr pid, w2)
              \<and> (pid = None \<or> pid = Some 0)
            \<longrightarrow> ingest_profile w' prof a c = (Inr (), w2))"
proof -
  have gen: "\<forall>w' pid w2. insert_profile_metadata w' a c d la lo = (Inr pid, w2)
              \<and> (pid = None \<or> pid = Some 0)
            \<longrightarrow> ingest_profile w' prof a c = (Inr (), w2)"
    using assms(4-7) by (auto simp: ingest_profile_def falsy_def)
  from assms(8) have f1: "\<not> (faults w \<noteq> [] \<and> hd (faults w))"
    and f2: "True \<notin> set (take 2 (tl (faults w)))"
    by (simp_all add: numeral_3_eq_3 numeral_2_eq_2 no_fault_Suc)
  let ?w0 = "w\<lparr>faults := tl (faults w)\<rparr>"
  from profile_exists_ok[OF f1, of a c] assms(3)
  have pe: "profile_exists w a c = (Inr False, ?w0)" by simp
  from f2 have "True \<notin> set (take 2 (faults ?w0))" by simp
  from insert_profile_metadata_ok[OF this, of a c d la lo] assms(9)
  obtain w2 where im: "insert_profile_metadata ?w0 a c d la lo = (Inr (Some 0), w2)"
    and w2: "argo_profiles w2 = argo_profiles w @ txn_profiles w @
            [\<lparr>profile_id = 0, platform_number = a, cycle_number = c,
              profile_timestamp = d, latitude = la, longitude = lo\<rparr>]"
      "ocean_measurements w2 = ocean_measurements w @ txn_measurements w"
      "txn_measurements w2 = []" "log w2 = log w" "faults w2 = tl (tl (tl (faults w)))"
    by simp
  from gen im have "ingest_profile ?w0 prof a c = (Inr (), w2)" by blast
  with assms(1,2) pe have "process_profile w prof = (Inr (), w2)"
    by (simp add: process_profile_def)
  moreover have "tl (tl (tl (faults w))) = drop 3 (faults w)"
    by (simp add: numeral_3_eq_3 drop_Suc drop_tl)
  ultimately show ?thesis using w2 gen by simp
qed

theorem falsy_profile_id_skips_measurements_witness:
  "PLATFORM_NUMBER example_profile = Inr 1901393 \<and> CYCLE_NUMBER example_profile = Inr 1
   \<and> JULD example_profile = Inr (Finite (3 / 2))
   \<and> profile_date_of (Finite (3 / 2)) = Inr \<lparr>year = 1950, month = 1, day = 2, hour = 12,
        minute = 0, second = 0, microsecond = 0\<rparr>
   \<and> LATITUDE example_profile = Inr (Finite 10) \<and> LONGITUDE example_profile = Inr (Finite (-20))
   \<and> profile_id_seq zero_seq_store = 0 \<and> faults zero_seq_store = []
   \<and> argo_profiles zero_seq_store @ txn_profiles zero_seq_store = []
   \<and> fst (process_profile zero_seq_store example_profile) = Inr ()
   \<and> map profile_id (argo_profiles (snd (process_profile zero_seq_store example_profile))) = [0]
   \<and> ocean_measurements (snd (process_profile zero_seq_store example_profile)) = []
   \<and> length (fst (extract_measurements zero_seq_store example_profile 0)) = 2
   \<and> insert_profile_metadata zero_seq_store 1901393 1
        \<lparr>year = 1950, month = 1, day = 2, hour = 12, minute = 0, second = 0, microsecond = 0\<rparr>
        (Finite 10) (Finite (-20))
       = (Inr (Some 0), snd (process_profile zero_seq_store example_profile))
   \<and> ingest_profile zero_seq_store example_profile 1901393 1
       = (Inr (), snd (process_profile zero_seq_store example_profile))"
proof -
  let ?d = "\<lparr>year = 1950, month = 1, day = 2, hour = 12, minute = 0, second = 0,
             microsecond = 0\<rparr>"
  have k: "PLATFORM_NUMBER example_profile = Inr 1901393" "CYCLE_NUMBER example_profile = Inr 1"
    "JULD example_profile = Inr (Finite (3 / 2))"
    "LATITUDE example_profile = Inr (Finite 10)" "LONGITUDE example_profile = Inr (Finite (-20))"
    by (simp_all add: example_profile_def)
  have d: "profile_date_of (Finite (3 / 2)) = Inr ?d" by code_simp
  have s: "profile_id_seq zero_seq_store = 0" "faults zero_seq_store = []"
    "argo_profiles zero_seq_store @ txn_profiles zero_seq_store = []"
    "ocean_measurements zero_seq_store @ txn_measurements zero_seq_store = []"
    by (simp_all add: zero_seq_store_def empty_store_def)
  have nk: "(1901393, 1) \<notin> set (map profile_key
      (argo_profiles zero_seq_store @ txn_profiles zero_seq_store))"
    and nf: "True \<notin> set (take 3 (faults zero_seq_store))"
    using s by simp_all
  have n: "length (fst (extract_measurements zero_seq_store example_profile 0)) = 2"
    by code_simp
  have im: "insert_profile_metadata zero_seq_store 1901393 1 ?d (Finite 10) (Finite (-20))
       = (Inr (Some 0), snd (process_profile zero_seq_store example_profile))"
    by code_simp
  note t = falsy_profile_id_skips_measurements[OF k(1,2) nk k(3) d k(4,5) nf s(1)]
  from t have r: "fst (process_profile zero_seq_store example_profile) = Inr ()"
    "map profile_id (argo_profiles (snd (process_profile zero_seq_store example_profile))) = [0]"
    "ocean_measurements (snd (process_profile zero_seq_store example_profile)) = []"
    using s by simp_all
  from t im have "ingest_profile zero_seq_store example_profile 1901393 1
       = (Inr (), snd (process_profile zero_seq_store example_profile))"
    by blast
  with k d s r n im show ?thesis by simp
qed







end
